theory Spec2Isabelle
  imports Main
begin

section \<open>The loaded program\<close>

text \<open>
  The command works on the result of \<^verbatim>\<open>loader.Config.Load\<close>: a
  \<^verbatim>\<open>*loader.Program\<close> holding a file set, the packages that were asked for
  (\<^verbatim>\<open>Imported\<close>) and all packages (\<^verbatim>\<open>AllPackages\<close>), each with its syntax
  trees and the type checker's \<^verbatim>\<open>Defs\<close> and \<^verbatim>\<open>Uses\<close> maps. Pointers are
  modelled by numbers: two objects, identifiers or files are the same Go value iff their
  records are equal.
\<close>

text \<open>\<^verbatim>\<open>types.Object\<close>: identity, \<^verbatim>\<open>Name()\<close>, \<^verbatim>\<open>Exported()\<close> and
  \<^verbatim>\<open>Pkg().Path()\<close>. The type checker derives \<^verbatim>\<open>Exported()\<close> from the case of
  the name's first letter; here it is a field, so nothing is assumed about that rule.\<close>

record object =
  oid :: nat
  obj_Name :: string
  Exported :: bool
  obj_Pkg :: string

text \<open>\<^verbatim>\<open>*ast.Ident\<close>: its address and \<^verbatim>\<open>Pos()\<close>. The field \<^verbatim>\<open>Name\<close> is
  assigned by the command, so it lives in a store from addresses to strings.\<close>

record ident =
  addr :: nat
  NamePos :: nat

text \<open>\<^verbatim>\<open>*token.File\<close>: \<^verbatim>\<open>Name()\<close>, base and size.\<close>

record token_File =
  tf_Name :: string
  tf_Base :: nat
  tf_Size :: nat

text \<open>\<^verbatim>\<open>*ast.File\<close>: \<^verbatim>\<open>Pos()\<close> is the position of the package keyword; the
  tree is kept as its leaves in source order, fixed text and identifiers.\<close>

datatype node = Text string | Id ident

record ast_File =
  Package :: nat
  Nodes :: "node list"

text \<open>\<^verbatim>\<open>*loader.PackageInfo\<close>. A Go map is a list of its entries in the order a
  \<^verbatim>\<open>range\<close> visits them; an entry of \<^verbatim>\<open>Defs\<close> may hold the nil object.\<close>

record PackageInfo =
  Files :: "ast_File list"
  Defs :: "(ident \<times> object option) list"
  Uses :: "(ident \<times> object) list"

text \<open>\<^verbatim>\<open>*loader.Program\<close>. \<^verbatim>\<open>Imported\<close> is keyed by import path;
  \<^verbatim>\<open>AllPackages\<close> is keyed by \<^verbatim>\<open>*types.Package\<close>, of which only
  \<^verbatim>\<open>Path()\<close> is read. \<^verbatim>\<open>Names\<close> is the \<^verbatim>\<open>Name\<close> field of every
  identifier of the program, by address, as parsed.\<close>

record Program =
  Fset :: "token_File list"
  Imported :: "(string \<times> PackageInfo) list"
  AllPackages :: "(string \<times> PackageInfo) list"
  Names :: "nat \<Rightarrow> string"

text \<open>\<^verbatim>\<open>(*token.FileSet).File\<close>: the file whose range holds the position, nil for
  \<^verbatim>\<open>token.NoPos\<close> and for a position in no file.\<close>

definition Fset_File :: "token_File list \<Rightarrow> nat \<Rightarrow> token_File option" where
  "Fset_File fset p =
     (if p = 0 then None
      else find (\<lambda>f. tf_Base f \<le> p \<and> p \<le> tf_Base f + tf_Size f) fset)"

section \<open>Configuration, collaborators and effects\<close>

text \<open>The \<^verbatim>\<open>config\<close> struct. Its build context is part of the collaborators
  below.\<close>

record config =
  importPath :: string
  identifiers :: "string list"
  dryRun :: bool
  verbose :: bool

text \<open>An error returned by \<^verbatim>\<open>runMain\<close>, or a run-time panic.\<close>

datatype error = Err string | Panic string

text \<open>
  The libraries the command calls, for one build context and one workspace:
  \<^item> \<^verbatim>\<open>Load\<close>: \<^verbatim>\<open>conf.Load()\<close> after \<^verbatim>\<open>conf.ImportWithTests\<close> of each
    given path;
  \<^item> \<^verbatim>\<open>Build_errors\<close> and \<^verbatim>\<open>rev_Search\<close>: the errors of
    \<^verbatim>\<open>importgraph.Build\<close> and \<^verbatim>\<open>Search\<close> on its reverse graph;
  \<^item> \<^verbatim>\<open>format_Node\<close>: \<^verbatim>\<open>format.Node\<close> on a file under the current
    identifier names;
  \<^item> \<^verbatim>\<open>WriteFile\<close>: \<^verbatim>\<open>ioutil.WriteFile\<close> on a file system of type
    \<open>'fs\<close>, returning its error (if any) and the file system afterwards;
  \<^item> \<^verbatim>\<open>ToLower\<close>: \<^verbatim>\<open>strings.ToLower\<close>.
\<close>

record 'fs env =
  Load :: "string list \<Rightarrow> string + Program"
  Build_errors :: "(string \<times> string) list"
  rev_Search :: "string \<Rightarrow> string list"
  format_Node :: "(nat \<Rightarrow> string) \<Rightarrow> ast_File \<Rightarrow> string + string"
  WriteFile :: "'fs \<Rightarrow> string \<Rightarrow> string \<Rightarrow> string option \<times> 'fs"
  ToLower :: "string \<Rightarrow> string"

text \<open>What the command prints: to standard error, to standard output, through
  \<^verbatim>\<open>log\<close>; \<^verbatim>\<open>LogObj\<close> is \<^verbatim>\<open>log.Println("\t", obj)\<close>.\<close>

datatype event =
    Stderr string
  | Stdout string
  | Logged string
  | LogObj object

text \<open>
  The state of a run of \<^verbatim>\<open>runMain\<close>: its result \<^verbatim>\<open>err\<close> (\<open>None\<close> is
  nil), the output so far, the file system, the identifier names of the reloaded
  program, and the local variables \<^verbatim>\<open>globalProg\<close>, \<^verbatim>\<open>objsToUpdate\<close>,
  \<^verbatim>\<open>nidents\<close>, \<^verbatim>\<open>filesToUpdate\<close>, \<^verbatim>\<open>npkgs\<close> and \<^verbatim>\<open>nerrs\<close>. The
  two maps to \<^verbatim>\<open>bool\<close> only ever store \<^verbatim>\<open>true\<close>: they are the lists of
  their keys. \<^verbatim>\<open>attempts\<close> records each call of \<^verbatim>\<open>rewriteFile\<close>: the
  file name and the error it returned. The counters are Go \<^verbatim>\<open>int\<close>s that count
  identifiers and files in memory, far below \<open>2^63\<close>.
\<close>

record 'fs run =
  err :: "error option"
  out :: "event list"
  disk :: 'fs
  names :: "nat \<Rightarrow> string"
  globalProg :: "Program option"
  objsToUpdate :: "object list"
  nidents :: nat
  filesToUpdate :: "token_File option list"
  npkgs :: nat
  nerrs :: nat
  attempts :: "(string \<times> string option) list"

definition start :: "'fs \<Rightarrow> 'fs run" where
  "start fs =
     \<lparr>err = None, out = [], disk = fs, names = (\<lambda>a. []), globalProg = None,
      objsToUpdate = [], nidents = 0, filesToUpdate = [], npkgs = 0, nerrs = 0,
      attempts = []\<rparr>"

section \<open>Formatting\<close>

text \<open>The verb \<^verbatim>\<open>%d\<close> on a non-negative number.\<close>

fun show_nat :: "nat \<Rightarrow> string" where
  "show_nat n =
     (if n < 10 then [char_of (48 + n)]
      else show_nat (n div 10) @ [char_of (48 + n mod 10)])"

declare show_nat.simps [simp del]

definition plural :: "nat \<Rightarrow> string" where
  "plural n = (if n \<noteq> 1 then ''s'' else '''')"

text \<open>The summary line of \<^verbatim>\<open>runMain\<close>.\<close>

definition summary :: "nat \<Rightarrow> nat \<Rightarrow> nat \<Rightarrow> string" where
  "summary n f p =
     ''Unexported '' @ show_nat n @ '' occurrence'' @ plural n @
     '' in '' @ show_nat f @ '' file'' @ plural f @
     '' in '' @ show_nat p @ '' package'' @ plural p @ ''.''"

definition rewrite_failure :: "nat \<Rightarrow> string" where
  "rewrite_failure n = ''failed to rewrite '' @ show_nat n @ '' file'' @ plural n"

section \<open>The functions of the command\<close>

text \<open>\<^verbatim>\<open>loadProgram\<close>: every given path is imported with its tests, then the
  configuration is loaded.\<close>

definition loadProgram :: "'fs env \<Rightarrow> string list \<Rightarrow> string + Program" where
  "loadProgram env pkgs = Load env pkgs"

text \<open>\<^verbatim>\<open>exportedObjects\<close>: the entries of \<^verbatim>\<open>Defs\<close> whose object is not nil
  and is exported.\<close>

fun exportedDefs :: "(ident \<times> object option) list \<Rightarrow> (ident \<times> object) list" where
  "exportedDefs [] = []"
| "exportedDefs ((i, None) # ds) = exportedDefs ds"
| "exportedDefs ((i, Some obj) # ds) =
     (if Exported obj then (i, obj) # exportedDefs ds else exportedDefs ds)"

definition exportedObjects :: "PackageInfo \<Rightarrow> (ident \<times> object) list" where
  "exportedObjects info = exportedDefs (Defs info)"

text \<open>
  \<^verbatim>\<open>findExportedObjects\<close>: the package with the given path is looked up among
  \<^verbatim>\<open>AllPackages\<close>. When there is none, \<^verbatim>\<open>pkgObj\<close> stays nil, the map
  yields a nil \<^verbatim>\<open>*PackageInfo\<close>, and \<^verbatim>\<open>exportedObjects\<close> dereferences it.
\<close>

definition findExportedObjects :: "Program \<Rightarrow> string \<Rightarrow> error + (ident \<times> object) list" where
  "findExportedObjects prog path =
     (case find (\<lambda>(pkg, info). pkg = path) (AllPackages prog) of
        None \<Rightarrow> Inl (Panic ''invalid memory address or nil pointer dereference'')
      | Some (pkg, info) \<Rightarrow> Inr (exportedObjects info))"

text \<open>\<^verbatim>\<open>hasUse\<close> and \<^verbatim>\<open>filterObjects\<close>.\<close>

definition hasUse :: "PackageInfo \<Rightarrow> object \<Rightarrow> bool" where
  "hasUse info obj = list_ex (\<lambda>(i, o'). o' = obj) (Uses info)"

definition filterObjects :: "PackageInfo \<Rightarrow> (ident \<times> object) list \<Rightarrow> (ident \<times> object) list" where
  "filterObjects info exported = filter (\<lambda>(i, ex). \<not> hasUse info ex) exported"

text \<open>\<^verbatim>\<open>rewriteFile\<close>: print the tree, then write the bytes.\<close>

definition rewriteFile ::
    "'fs env \<Rightarrow> (nat \<Rightarrow> string) \<Rightarrow> ast_File \<Rightarrow> string \<Rightarrow> 'fs \<Rightarrow> string option \<times> 'fs" where
  "rewriteFile env nm f filename fs =
     (case format_Node env nm f of
        Inl e \<Rightarrow> (Some (''failed to pretty-print syntax tree: '' @ e), fs)
      | Inr buf \<Rightarrow> WriteFile env fs filename buf)"

subsection \<open>The loops of \<^verbatim>\<open>runMain\<close>\<close>

text \<open>The set of potentially affected packages: for every exported object of the
  first load, all packages found by the reverse search from the object's package.\<close>

definition possiblePackages :: "'fs env \<Rightarrow> (ident \<times> object) list \<Rightarrow> string list" where
  "possiblePackages env objs =
     fold (\<lambda>(i, obj) acc. fold List.insert (rev_Search env (obj_Pkg obj)) acc) objs []"

text \<open>The objects to update: for every imported package, every object that
  \<^verbatim>\<open>filterObjects\<close> returns for it is entered.\<close>

definition safeObjects ::
    "(string \<times> PackageInfo) list \<Rightarrow> (ident \<times> object) list \<Rightarrow> object list" where
  "safeObjects imported objects =
     fold (\<lambda>(p, info) acc. fold (\<lambda>(i, obj) acc'. List.insert obj acc')
             (filterObjects info objects) acc) imported []"

text \<open>One iteration of the renaming loops: an identifier whose object is to be
  updated is counted, renamed, and its file is marked.\<close>

definition renameIdent ::
    "'fs env \<Rightarrow> token_File list \<Rightarrow> ident \<Rightarrow> object option \<Rightarrow> 'fs run \<Rightarrow> 'fs run" where
  "renameIdent env fset i ob r =
     (case ob of
        None \<Rightarrow> r
      | Some obj \<Rightarrow>
          if obj \<in> set (objsToUpdate r)
          then r\<lparr>nidents := nidents r + 1,
                 names := (names r)(addr i := ToLower env (obj_Name obj)),
                 filesToUpdate := List.insert (Fset_File fset (NamePos i)) (filesToUpdate r)\<rparr>
          else r)"

definition renamePackage :: "'fs env \<Rightarrow> token_File list \<Rightarrow> PackageInfo \<Rightarrow> 'fs run \<Rightarrow> 'fs run" where
  "renamePackage env fset info r =
     fold (\<lambda>(i, obj). renameIdent env fset i (Some obj)) (Uses info)
       (fold (\<lambda>(i, ob). renameIdent env fset i ob) (Defs info) r)"

definition renameAll ::
    "'fs env \<Rightarrow> token_File list \<Rightarrow> (string \<times> PackageInfo) list \<Rightarrow> 'fs run \<Rightarrow> 'fs run" where
  "renameAll env fset imported r =
     fold (\<lambda>(p, info). renamePackage env fset info) imported r"

text \<open>
  The files of one package are written: \<^verbatim>\<open>first\<close> is the loop's flag. A marked
  file whose \<^verbatim>\<open>*token.File\<close> is nil stops the run, since \<^verbatim>\<open>Name()\<close>
  dereferences it.
\<close>

fun writeFiles ::
    "'fs env \<Rightarrow> token_File list \<Rightarrow> ast_File list \<Rightarrow> bool \<Rightarrow> 'fs run \<Rightarrow> 'fs run" where
  "writeFiles env fset [] first r = r"
| "writeFiles env fset (f # fs) first r =
     (let tokenFile = Fset_File fset (Package f) in
      if tokenFile \<in> set (filesToUpdate r) then
        (let r1 = (if first then r\<lparr>npkgs := npkgs r + 1\<rparr> else r) in
         case tokenFile of
           None \<Rightarrow> r1\<lparr>err := Some (Panic ''invalid memory address or nil pointer dereference'')\<rparr>
         | Some tf \<Rightarrow>
             (case rewriteFile env (names r1) f (tf_Name tf) (disk r1) of
                (None, d) \<Rightarrow>
                  writeFiles env fset fs False
                    (r1\<lparr>disk := d, attempts := attempts r1 @ [(tf_Name tf, None)]\<rparr>)
              | (Some e, d) \<Rightarrow>
                  writeFiles env fset fs False
                    (r1\<lparr>disk := d, attempts := attempts r1 @ [(tf_Name tf, Some e)],
                        out := out r1 @ [Logged e], nerrs := nerrs r1 + 1\<rparr>)))
      else writeFiles env fset fs first r)"

fun writeAll ::
    "'fs env \<Rightarrow> token_File list \<Rightarrow> (string \<times> PackageInfo) list \<Rightarrow> 'fs run \<Rightarrow> 'fs run" where
  "writeAll env fset [] r = r"
| "writeAll env fset ((p, info) # rest) r =
     (let r' = writeFiles env fset (Files info) True r in
      if err r' = None then writeAll env fset rest r' else r')"

subsection \<open>\<^verbatim>\<open>runMain\<close> and \<^verbatim>\<open>main\<close>\<close>

text \<open>The lines printed for the errors of the workspace scan. An event is one line
  without its newline; the quotes that \<^verbatim>\<open>%q\<close> puts around the path and the tab
  before a package or object in the verbose listings are left out.\<close>

definition scanErrors :: "(string \<times> string) list \<Rightarrow> event list" where
  "scanErrors es =
     (if es = [] then []
      else Stderr ''While scanning Go workspace:'' #
           map (\<lambda>(p, e). Stderr (''Package '' @ p @ '': '' @ e @ ''.'')) es)"

definition say :: "bool \<Rightarrow> event list \<Rightarrow> 'fs run \<Rightarrow> 'fs run" where
  "say v es r = (if v then r\<lparr>out := out r @ es\<rparr> else r)"

text \<open>The end of \<^verbatim>\<open>runMain\<close>: the summary line, then the aggregate error.\<close>

definition finish :: "'fs run \<Rightarrow> 'fs run" where
  "finish r =
     (if err r \<noteq> None then r
      else
        (let r' = r\<lparr>out := out r @
                      [Logged (summary (nidents r) (length (filesToUpdate r)) (npkgs r))]\<rparr>
         in if nerrs r' > 0 then r'\<lparr>err := Some (Err (rewrite_failure (nerrs r')))\<rparr>
            else r'))"

definition runMain :: "'fs env \<Rightarrow> config \<Rightarrow> 'fs \<Rightarrow> 'fs run" where
  "runMain env conf fs =
     (let r0 = start fs; path = importPath conf in
      if path = [] then r0\<lparr>err := Some (Err ''import path of the package must be given'')\<rparr>
      else
        case loadProgram env [path] of
          Inl e \<Rightarrow> r0\<lparr>err := Some (Err e)\<rparr>
        | Inr prog \<Rightarrow>
            (let r1 = r0\<lparr>out := scanErrors (Build_errors env)\<rparr> in
             case findExportedObjects prog path of
               Inl e \<Rightarrow> r1\<lparr>err := Some e\<rparr>
             | Inr objs \<Rightarrow>
                 (let pkgs = possiblePackages env objs;
                      r2 = say (verbose conf)
                             (Stdout ''Possible affected packages:'' # map Stdout pkgs) r1
                  in case loadProgram env pkgs of
                       Inl e \<Rightarrow> r2\<lparr>err := Some (Err e)\<rparr>
                     | Inr g \<Rightarrow>
                         (case findExportedObjects g path of
                            Inl e \<Rightarrow> r2\<lparr>globalProg := Some g, names := Names g, err := Some e\<rparr>
                          | Inr objects \<Rightarrow>
                              (let r3 = say (verbose conf)
                                          (Logged ''Exported identififers are:'' #
                                           map (LogObj \<circ> snd) objects)
                                          (r2\<lparr>globalProg := Some g, names := Names g\<rparr>);
                                   r4 = r3\<lparr>objsToUpdate := safeObjects (Imported g) objects\<rparr>;
                                   r5 = say (verbose conf)
                                          (Logged ''Safe to unexport identifiers are:'' #
                                           map LogObj (objsToUpdate r4)) r4;
                                   r6 = renameAll env (Fset g) (Imported g) r5;
                                   r7 = writeAll env (Fset g) (Imported g) r6
                               in finish r7)))))"

text \<open>\<^verbatim>\<open>strings.Split(s, ",")\<close>.\<close>

fun Split :: "string \<Rightarrow> string list" where
  "Split [] = [[]]"
| "Split (c # cs) =
     (if c = CHR '','' then [] # Split cs
      else (case Split cs of [] \<Rightarrow> [[c]] | w # ws \<Rightarrow> (c # w) # ws))"

record flags =
  flagPackage :: string
  flagIdentifier :: string
  flagDryRun :: bool
  flagVerbose :: bool

text \<open>\<^verbatim>\<open>main\<close>: the exit code of the process and the run. A returned error
  is printed and the process exits with 1; a panic exits with 2.\<close>

definition exitCode :: "error option \<Rightarrow> nat" where
  "exitCode e = (case e of None \<Rightarrow> 0 | Some (Err m) \<Rightarrow> 1 | Some (Panic m) \<Rightarrow> 2)"

text \<open>The \<^verbatim>\<open>config\<close> that \<^verbatim>\<open>main\<close> builds from the flags.\<close>

definition configOf :: "flags \<Rightarrow> config" where
  "configOf fl =
     \<lparr>importPath = flagPackage fl, identifiers = Split (flagIdentifier fl),
      dryRun = flagDryRun fl, verbose = flagVerbose fl\<rparr>"

definition main :: "'fs env \<Rightarrow> flags \<Rightarrow> 'fs \<Rightarrow> nat \<times> 'fs run" where
  "main env fl fs =
     (let r = runMain env (configOf fl) fs
      in (exitCode (err r),
          case err r of
            Some (Err e) \<Rightarrow> r\<lparr>out := out r @ [Stderr (''unexport: '' @ e)]\<rparr>
          | _ \<Rightarrow> r))"

section \<open>Notions used in the statements\<close>

text \<open>The definition and use sites of the imported packages, in the order the renaming
  loops visit them; a use site always has an object.\<close>

definition sites :: "(string \<times> PackageInfo) list \<Rightarrow> (ident \<times> object option) list" where
  "sites imported =
     concat (map (\<lambda>(p, info). Defs info @ map (\<lambda>(i, obj). (i, Some obj)) (Uses info)) imported)"

text \<open>A site is planned when its object is one of the objects to update.\<close>

definition planned :: "object list \<Rightarrow> ident \<times> object option \<Rightarrow> bool" where
  "planned plan s = (case snd s of None \<Rightarrow> False | Some obj \<Rightarrow> obj \<in> set plan)"

text \<open>Two planned sites at the same identifier agree when their objects have the same
  name.\<close>

definition agree :: "object list \<Rightarrow> ident \<times> object option \<Rightarrow> ident \<times> object option \<Rightarrow> bool" where
  "agree plan s t =
     (if planned plan s \<and> planned plan t \<and> addr (fst s) = addr (fst t)
      then obj_Name (the (snd s)) = obj_Name (the (snd t)) else True)"

definition renameSites ::
    "'fs env \<Rightarrow> token_File list \<Rightarrow> (ident \<times> object option) list \<Rightarrow> 'fs run \<Rightarrow> 'fs run" where
  "renameSites env fset ss r = fold (\<lambda>(i, ob). renameIdent env fset i ob) ss r"

text \<open>The state in which a run stops early, and the state in which renaming starts.\<close>

definition halted :: "'fs \<Rightarrow> event list \<Rightarrow> Program option \<Rightarrow> (nat \<Rightarrow> string) \<Rightarrow> error \<Rightarrow> 'fs run" where
  "halted fs evs gp nm e =
     \<lparr>err = Some e, out = evs, disk = fs, names = nm, globalProg = gp,
      objsToUpdate = [], nidents = 0, filesToUpdate = [], npkgs = 0, nerrs = 0,
      attempts = []\<rparr>"

definition ready :: "'fs \<Rightarrow> event list \<Rightarrow> Program \<Rightarrow> object list \<Rightarrow> 'fs run" where
  "ready fs evs g plan =
     \<lparr>err = None, out = evs, disk = fs, names = Names g, globalProg = Some g,
      objsToUpdate = plan, nidents = 0, filesToUpdate = [], npkgs = 0, nerrs = 0,
      attempts = []\<rparr>"

text \<open>The files of the imported packages in the order the writing loop visits them,
  those among them whose \<^verbatim>\<open>*token.File\<close> is marked, and the name a file is written
  under.\<close>

definition allFiles :: "(string \<times> PackageInfo) list \<Rightarrow> ast_File list" where
  "allFiles imported = concat (map (\<lambda>(p, info). Files info) imported)"

definition touched :: "token_File list \<Rightarrow> token_File option list \<Rightarrow> ast_File list \<Rightarrow> ast_File list" where
  "touched fset marks fs = filter (\<lambda>f. Fset_File fset (Package f) \<in> set marks) fs"

definition wname :: "token_File list \<Rightarrow> ast_File \<Rightarrow> string" where
  "wname fset f = (case Fset_File fset (Package f) of None \<Rightarrow> [] | Some tf \<Rightarrow> tf_Name tf)"

text \<open>A failed call of \<^verbatim>\<open>rewriteFile\<close>; a call whose error, if any, is in the
  log; a run that ended in a panic; a run whose error counter and log account for all
  its calls.\<close>

definition failed :: "string \<times> string option \<Rightarrow> bool" where
  "failed a = (snd a \<noteq> None)"

definition reported :: "event list \<Rightarrow> string \<times> string option \<Rightarrow> bool" where
  "reported evs a = (case snd a of None \<Rightarrow> True | Some e \<Rightarrow> Logged e \<in> set evs)"

definition panicked :: "'fs run \<Rightarrow> bool" where
  "panicked r = (case err r of Some (Panic e) \<Rightarrow> True | _ \<Rightarrow> False)"

definition accounted :: "'fs run \<Rightarrow> bool" where
  "accounted r =
     (nerrs r = length (filter failed (attempts r)) \<and> list_all (reported (out r)) (attempts r))"

text \<open>The body of the writing loop for a marked file with a \<^verbatim>\<open>*token.File\<close>.\<close>

definition written :: "'fs env \<Rightarrow> ast_File \<Rightarrow> token_File \<Rightarrow> bool \<Rightarrow> 'fs run \<Rightarrow> 'fs run" where
  "written env f tf first r =
     (let r1 = (if first then r\<lparr>npkgs := npkgs r + 1\<rparr> else r);
          res = rewriteFile env (names r1) f (tf_Name tf) (disk r1)
      in case fst res of
           None \<Rightarrow> r1\<lparr>disk := snd res, attempts := attempts r1 @ [(tf_Name tf, None)]\<rparr>
         | Some e \<Rightarrow> r1\<lparr>disk := snd res, attempts := attempts r1 @ [(tf_Name tf, Some e)],
                        out := out r1 @ [Logged e], nerrs := nerrs r1 + 1\<rparr>)"

text \<open>A run that reaches the loops: renaming, writing, the summary.\<close>

definition pipeline :: "'fs env \<Rightarrow> 'fs \<Rightarrow> event list \<Rightarrow> Program \<Rightarrow> object list \<Rightarrow> 'fs run" where
  "pipeline env fs evs g plan =
     finish (writeAll env (Fset g) (Imported g)
       (renameAll env (Fset g) (Imported g) (ready fs evs g plan)))"

section \<open>A small workspace for the examples\<close>

text \<open>
  The collaborators of the examples: a loader that returns the packages asked for out of
  a fixed list and, as the library does, refuses to load nothing; a printer that joins
  the leaves of a file; a file system that is a list of names and contents, with
  read-only names; and lower-casing of the letters A to Z.
\<close>

definition wsLoad ::
    "token_File list \<Rightarrow> (nat \<Rightarrow> string) \<Rightarrow> (string \<times> PackageInfo) list \<Rightarrow> string list \<Rightarrow>
     string + Program" where
  "wsLoad fset nm ws pkgs =
     (if pkgs = [] then Inl ''no initial packages were loaded''
      else if list_ex (\<lambda>p. p \<notin> fst ` set ws) pkgs then Inl ''cannot find package''
      else Inr \<lparr>Fset = fset, Imported = filter (\<lambda>(p, info). p \<in> set pkgs) ws,
                AllPackages = filter (\<lambda>(p, info). p \<in> set pkgs) ws, Names = nm\<rparr>)"

definition printNodes :: "(nat \<Rightarrow> string) \<Rightarrow> ast_File \<Rightarrow> string + string" where
  "printNodes nm f =
     Inr (concat (map (\<lambda>n. case n of Text s \<Rightarrow> s | Id i \<Rightarrow> nm (addr i)) (Nodes f)))"

definition putFile ::
    "string list \<Rightarrow> (string \<times> string) list \<Rightarrow> string \<Rightarrow> string \<Rightarrow>
     string option \<times> (string \<times> string) list" where
  "putFile ro fs name buf =
     (if name \<in> set ro then (Some (''open '' @ name @ '': permission denied''), fs)
      else (None, (name, buf) # filter (\<lambda>(n, b). n \<noteq> name) fs))"

definition asciiLower :: "string \<Rightarrow> string" where
  "asciiLower s =
     map (\<lambda>c. if 65 \<le> (of_char c :: nat) \<and> (of_char c :: nat) \<le> 90
              then char_of (of_char c + 32 :: nat) else c) s"

definition at :: "nat \<Rightarrow> nat \<Rightarrow> ident" where
  "at a p = \<lparr>addr = a, NamePos = p\<rparr>"

definition ex_Fset :: "token_File list" where
  "ex_Fset =
     [\<lparr>tf_Name = ''p/p.go'', tf_Base = 1, tf_Size = 99\<rparr>,
      \<lparr>tf_Name = ''b/b.go'', tf_Base = 101, tf_Size = 99\<rparr>,
      \<lparr>tf_Name = ''q/q.go'', tf_Base = 201, tf_Size = 99\<rparr>,
      \<lparr>tf_Name = ''n/n.go'', tf_Base = 301, tf_Size = 99\<rparr>,
      \<lparr>tf_Name = ''e/e.go'', tf_Base = 401, tf_Size = 99\<rparr>,
      \<lparr>tf_Name = ''t/t.go'', tf_Base = 501, tf_Size = 99\<rparr>,
      \<lparr>tf_Name = ''u/u.go'', tf_Base = 601, tf_Size = 99\<rparr>]"

definition ex_Names :: "nat \<Rightarrow> string" where
  "ex_Names a =
     (case map_of
        [(0, ''p''), (1, ''Foo''), (2, ''Bar''),
         (3, ''b''), (4, ''g''), (5, ''p''), (6, ''Foo''),
         (10, ''q''), (11, ''Foo''), (12, ''h''), (13, ''Foo''),
         (20, ''n''), (21, ''x''),
         (30, ''e''), (31, ''Foo''), (32, ''T''), (33, ''Foo''),
         (40, ''t''), (41, ''Foo''),
         (42, ''u''), (43, ''U''), (44, ''t''), (45, ''Foo'')] a of
        None \<Rightarrow> [] | Some s \<Rightarrow> s)"

text \<open>Package \<^verbatim>\<open>p\<close> declares the functions \<^verbatim>\<open>Foo\<close> and \<^verbatim>\<open>Bar\<close> and uses
  neither.\<close>

definition Foo_p :: object where
  "Foo_p = \<lparr>oid = 1, obj_Name = ''Foo'', Exported = True, obj_Pkg = ''p''\<rparr>"

definition Bar_p :: object where
  "Bar_p = \<lparr>oid = 2, obj_Name = ''Bar'', Exported = True, obj_Pkg = ''p''\<rparr>"

definition p_go :: ast_File where
  "p_go = \<lparr>Package = 1,
           Nodes = [Text ''package '', Id (at 0 9), Text ''; func '', Id (at 1 17),
                    Text ''() {}; func '', Id (at 2 31), Text ''() {}'']\<rparr>"

definition p_info :: PackageInfo where
  "p_info = \<lparr>Files = [p_go],
             Defs = [(at 0 9, None), (at 1 17, Some Foo_p), (at 2 31, Some Bar_p)],
             Uses = []\<rparr>"

text \<open>Package \<^verbatim>\<open>b\<close> imports \<^verbatim>\<open>p\<close> and calls \<^verbatim>\<open>p.Foo\<close> in its function
  \<^verbatim>\<open>g\<close>.\<close>

definition g_b :: object where
  "g_b = \<lparr>oid = 3, obj_Name = ''g'', Exported = False, obj_Pkg = ''b''\<rparr>"

definition pkgname_b :: object where
  "pkgname_b = \<lparr>oid = 4, obj_Name = ''p'', Exported = False, obj_Pkg = ''b''\<rparr>"

definition b_go :: ast_File where
  "b_go = \<lparr>Package = 101,
           Nodes = [Text ''package '', Id (at 3 109), Text ''; import p; func '', Id (at 4 128),
                    Text ''() { '', Id (at 5 135), Text ''.'', Id (at 6 137), Text ''() }'']\<rparr>"

definition b_info :: PackageInfo where
  "b_info = \<lparr>Files = [b_go],
             Defs = [(at 3 109, None), (at 4 128, Some g_b)],
             Uses = [(at 5 135, pkgname_b), (at 6 137, Foo_p)]\<rparr>"

text \<open>Package \<^verbatim>\<open>q\<close> declares \<^verbatim>\<open>Foo\<close> and calls it in its own function
  \<^verbatim>\<open>h\<close>; no package imports \<^verbatim>\<open>q\<close>.\<close>

definition Foo_q :: object where
  "Foo_q = \<lparr>oid = 5, obj_Name = ''Foo'', Exported = True, obj_Pkg = ''q''\<rparr>"

definition h_q :: object where
  "h_q = \<lparr>oid = 6, obj_Name = ''h'', Exported = False, obj_Pkg = ''q''\<rparr>"

definition q_go :: ast_File where
  "q_go = \<lparr>Package = 201,
           Nodes = [Text ''package '', Id (at 10 209), Text ''; func '', Id (at 11 217),
                    Text ''() {}; func '', Id (at 12 231), Text ''() { '', Id (at 13 237),
                    Text ''() }'']\<rparr>"

definition q_info :: PackageInfo where
  "q_info = \<lparr>Files = [q_go],
             Defs = [(at 10 209, None), (at 11 217, Some Foo_q), (at 12 231, Some h_q)],
             Uses = [(at 13 237, Foo_q)]\<rparr>"

text \<open>Package \<^verbatim>\<open>n\<close> declares only the variable \<^verbatim>\<open>x\<close>.\<close>

definition x_n :: object where
  "x_n = \<lparr>oid = 7, obj_Name = ''x'', Exported = False, obj_Pkg = ''n''\<rparr>"

definition n_go :: ast_File where
  "n_go = \<lparr>Package = 301,
           Nodes = [Text ''package '', Id (at 20 309), Text ''; var '', Id (at 21 315),
                    Text '' = 1'']\<rparr>"

definition n_info :: PackageInfo where
  "n_info = \<lparr>Files = [n_go],
             Defs = [(at 20 309, None), (at 21 315, Some x_n)],
             Uses = []\<rparr>"

text \<open>
  Package \<^verbatim>\<open>e\<close> declares the types \<^verbatim>\<open>Foo\<close> and \<^verbatim>\<open>T\<close>, and \<^verbatim>\<open>T\<close> embeds
  \<^verbatim>\<open>Foo\<close>. For an embedded field, \<^verbatim>\<open>go/types\<close> records the one identifier
  twice: in \<^verbatim>\<open>Defs\<close> with the field it declares, in \<^verbatim>\<open>Uses\<close> with the type name
  it denotes.
\<close>

definition FooType_e :: object where
  "FooType_e = \<lparr>oid = 8, obj_Name = ''Foo'', Exported = True, obj_Pkg = ''e''\<rparr>"

definition T_e :: object where
  "T_e = \<lparr>oid = 9, obj_Name = ''T'', Exported = True, obj_Pkg = ''e''\<rparr>"

definition FooField_e :: object where
  "FooField_e = \<lparr>oid = 10, obj_Name = ''Foo'', Exported = True, obj_Pkg = ''e''\<rparr>"

definition e_go :: ast_File where
  "e_go = \<lparr>Package = 401,
           Nodes = [Text ''package '', Id (at 30 409), Text ''; type '', Id (at 31 417),
                    Text '' struct{}; type '', Id (at 32 436), Text '' struct{ '',
                    Id (at 33 446), Text '' }'']\<rparr>"

definition e_info :: PackageInfo where
  "e_info = \<lparr>Files = [e_go],
             Defs = [(at 30 409, None), (at 31 417, Some FooType_e), (at 32 436, Some T_e),
                     (at 33 446, Some FooField_e)],
             Uses = [(at 33 446, FooType_e)]\<rparr>"

text \<open>
  Package \<^verbatim>\<open>t\<close> declares the type \<^verbatim>\<open>Foo\<close>. Package \<^verbatim>\<open>u\<close> imports \<^verbatim>\<open>t\<close>
  and declares the type \<^verbatim>\<open>U\<close>, which embeds \<^verbatim>\<open>t.Foo\<close>: the identifier
  \<^verbatim>\<open>Foo\<close> in \<^verbatim>\<open>u\<close> declares the field \<^verbatim>\<open>Foo\<close> of \<^verbatim>\<open>U\<close>, an object of
  \<^verbatim>\<open>u\<close>, and denotes the type of \<^verbatim>\<open>t\<close>.
\<close>

definition Foo_t :: object where
  "Foo_t = \<lparr>oid = 11, obj_Name = ''Foo'', Exported = True, obj_Pkg = ''t''\<rparr>"

definition t_go :: ast_File where
  "t_go = \<lparr>Package = 501,
           Nodes = [Text ''package '', Id (at 40 509), Text ''; type '', Id (at 41 517),
                    Text '' struct{}'']\<rparr>"

definition t_info :: PackageInfo where
  "t_info = \<lparr>Files = [t_go],
             Defs = [(at 40 509, None), (at 41 517, Some Foo_t)],
             Uses = []\<rparr>"

definition U_u :: object where
  "U_u = \<lparr>oid = 12, obj_Name = ''U'', Exported = True, obj_Pkg = ''u''\<rparr>"

definition FooField_u :: object where
  "FooField_u = \<lparr>oid = 13, obj_Name = ''Foo'', Exported = True, obj_Pkg = ''u''\<rparr>"

definition pkgname_u :: object where
  "pkgname_u = \<lparr>oid = 14, obj_Name = ''t'', Exported = False, obj_Pkg = ''u''\<rparr>"

definition u_go :: ast_File where
  "u_go = \<lparr>Package = 601,
           Nodes = [Text ''package '', Id (at 42 609), Text ''; import t; type '',
                    Id (at 43 627), Text '' struct{ '', Id (at 44 637), Text ''.'',
                    Id (at 45 639), Text '' }'']\<rparr>"

definition u_info :: PackageInfo where
  "u_info = \<lparr>Files = [u_go],
             Defs = [(at 42 609, None), (at 43 627, Some U_u), (at 45 639, Some FooField_u)],
             Uses = [(at 44 637, pkgname_u), (at 45 639, Foo_t)]\<rparr>"

text \<open>The files as they are on disk before a run.\<close>

definition ex_disk :: "(string \<times> string) list" where
  "ex_disk =
     [(''p/p.go'', ''package p; func Foo() {}; func Bar() {}''),
      (''b/b.go'', ''package b; import p; func g() { p.Foo() }''),
      (''q/q.go'', ''package q; func Foo() {}; func h() { Foo() }''),
      (''n/n.go'', ''package n; var x = 1''),
      (''e/e.go'', ''package e; type Foo struct{}; type T struct{ Foo }''),
      (''t/t.go'', ''package t; type Foo struct{}''),
      (''u/u.go'', ''package u; import t; type U struct{ t.Foo }'')]"

text \<open>An environment over a workspace \<open>ws\<close>: \<open>rv\<close> lists, for a package, what the
  reverse search from it finds (the package itself when nothing is listed), \<open>ro\<close> the
  read-only files.\<close>

definition exEnv ::
    "(string \<times> PackageInfo) list \<Rightarrow> (string \<times> string list) list \<Rightarrow> string list \<Rightarrow>
     (string \<times> string) list env" where
  "exEnv ws rv ro =
     \<lparr>Load = wsLoad ex_Fset ex_Names ws, Build_errors = [],
      rev_Search = (\<lambda>p. case map_of rv p of None \<Rightarrow> [p] | Some ps \<Rightarrow> ps),
      format_Node = printNodes, WriteFile = putFile ro, ToLower = asciiLower\<rparr>"

definition exConf :: "string \<Rightarrow> config" where
  "exConf path = \<lparr>importPath = path, identifiers = [[]], dryRun = False, verbose = False\<rparr>"

definition exFlags :: "string \<Rightarrow> flags" where
  "exFlags path =
     \<lparr>flagPackage = path, flagIdentifier = [], flagDryRun = False, flagVerbose = False\<rparr>"

text \<open>The workspace of \<^verbatim>\<open>p\<close> and \<^verbatim>\<open>b\<close>, in which \<^verbatim>\<open>p/p.go\<close> cannot be
  written.\<close>

definition envW :: "(string \<times> string) list env" where
  "envW = exEnv [(''p'', p_info), (''b'', b_info)] [(''p'', [''p'', ''b''])] [''p/p.go'']"

text \<open>The same workspace with all files writable; \<^verbatim>\<open>p\<close> alone; \<^verbatim>\<open>q\<close> alone;
  \<^verbatim>\<open>n\<close> alone; \<^verbatim>\<open>e\<close> alone.\<close>

definition envB :: "(string \<times> string) list env" where
  "envB = exEnv [(''p'', p_info), (''b'', b_info)] [(''p'', [''p'', ''b''])] []"

definition envP :: "(string \<times> string) list env" where
  "envP = exEnv [(''p'', p_info)] [] []"

definition envQ :: "(string \<times> string) list env" where
  "envQ = exEnv [(''q'', q_info)] [] []"

definition envN :: "(string \<times> string) list env" where
  "envN = exEnv [(''n'', n_info)] [] []"

definition envE :: "(string \<times> string) list env" where
  "envE = exEnv [(''e'', e_info)] [] []"

text \<open>The workspace of \<^verbatim>\<open>t\<close> and \<^verbatim>\<open>u\<close>.\<close>

definition envT :: "(string \<times> string) list env" where
  "envT = exEnv [(''t'', t_info), (''u'', u_info)] [(''t'', [''t'', ''u''])] []"

section \<open>The objects to update\<close>

lemma set_fold_insert_snd:
  "set (fold (\<lambda>(i, obj) acc'. List.insert obj acc') xs acc) = set acc \<union> snd ` set xs"
  by (induction xs arbitrary: acc) auto

lemma set_safeObjects_acc:
  "set (fold (\<lambda>(p, info) acc. fold (\<lambda>(i, obj) acc'. List.insert obj acc')
             (filterObjects info objects) acc) imported acc0) =
   set acc0 \<union> {obj. obj \<in> snd ` set objects \<and> (\<exists>info \<in> snd ` set imported. \<not> hasUse info obj)}"
proof (induction imported arbitrary: acc0)
  case Nil
  then show ?case by simp
next
  case (Cons a imported)
  obtain p info where a: "a = (p, info)" by (cases a)
  have "snd ` set (filterObjects info objects) = {obj. obj \<in> snd ` set objects \<and> \<not> hasUse info obj}"
    by (auto simp: filterObjects_def image_iff)
  then show ?case
    by (auto simp: a Cons.IH set_fold_insert_snd)
qed

text \<open>An object is entered iff it is an exported object of the target and at least one
  imported package has no use of it.\<close>

lemma set_safeObjects:
  "set (safeObjects imported objects) =
   {obj. obj \<in> snd ` set objects \<and> (\<exists>info \<in> snd ` set imported. \<not> hasUse info obj)}"
  unfolding safeObjects_def by (simp add: set_safeObjects_acc)

lemma exportedDefs_iff:
  "(i, obj) \<in> set (exportedDefs ds) \<longleftrightarrow> (i, Some obj) \<in> set ds \<and> Exported obj"
  by (induction ds rule: exportedDefs.induct) auto

lemma findExportedObjects_Inr:
  "findExportedObjects g path = Inr objects \<Longrightarrow>
   \<exists>info. (path, info) \<in> set (AllPackages g) \<and> objects = exportedObjects info"
  by (auto simp: findExportedObjects_def find_Some_iff in_set_conv_nth split: option.splits)

lemma findExportedObjects_Inl:
  "findExportedObjects g path = Inl e \<Longrightarrow> \<exists>m. e = Panic m"
  by (auto simp: findExportedObjects_def split: option.splits)

section \<open>The renaming loops\<close>

lemma renameSites_snoc:
  "renameSites env fset (ss @ [s]) r = renameIdent env fset (fst s) (snd s) (renameSites env fset ss r)"
  by (simp add: renameSites_def split_def)

lemma renameSites_Nil: "renameSites env fset [] r = r"
  by (simp add: renameSites_def)

lemma renameSites_append:
  "renameSites env fset (xs @ ys) r = renameSites env fset ys (renameSites env fset xs r)"
  by (simp add: renameSites_def)

lemma fold_Uses_Some:
  "fold (\<lambda>(i, obj). renameIdent env fset i (Some obj)) us r =
   renameSites env fset (map (\<lambda>(i, obj). (i, Some obj)) us) r"
  unfolding renameSites_def by (induction us arbitrary: r) (simp_all add: split_def)

lemma renamePackage_sites:
  "renamePackage env fset info r =
   renameSites env fset (Defs info @ map (\<lambda>(i, obj). (i, Some obj)) (Uses info)) r"
  unfolding renamePackage_def fold_Uses_Some renameSites_append
  by (simp add: renameSites_def)

text \<open>The nested loops visit the sites one after the other.\<close>

lemma renameAll_sites:
  "renameAll env fset imported r = renameSites env fset (sites imported) r"
proof (induction imported arbitrary: r)
  case Nil
  show ?case by (simp add: renameAll_def sites_def renameSites_def)
next
  case (Cons a imported)
  obtain p info where a: "a = (p, info)" by (cases a)
  have "renameAll env fset (a # imported) r = renameAll env fset imported (renamePackage env fset info r)"
    by (simp add: renameAll_def a)
  also have "\<dots> = renameSites env fset (sites imported) (renamePackage env fset info r)"
    by (rule Cons.IH)
  also have "\<dots> = renameSites env fset (sites (a # imported)) r"
    by (simp add: renamePackage_sites renameSites_append sites_def a)
  finally show ?case .
qed

lemma renameIdent_frame:
  "objsToUpdate (renameIdent env fset i ob r) = objsToUpdate r"
  "err (renameIdent env fset i ob r) = err r"
  "out (renameIdent env fset i ob r) = out r"
  "disk (renameIdent env fset i ob r) = disk r"
  "globalProg (renameIdent env fset i ob r) = globalProg r"
  "npkgs (renameIdent env fset i ob r) = npkgs r"
  "nerrs (renameIdent env fset i ob r) = nerrs r"
  "attempts (renameIdent env fset i ob r) = attempts r"
  by (simp_all add: renameIdent_def split: option.splits)

lemma renameSites_frame:
  "objsToUpdate (renameSites env fset ss r) = objsToUpdate r"
  "err (renameSites env fset ss r) = err r"
  "out (renameSites env fset ss r) = out r"
  "disk (renameSites env fset ss r) = disk r"
  "globalProg (renameSites env fset ss r) = globalProg r"
  "npkgs (renameSites env fset ss r) = npkgs r"
  "nerrs (renameSites env fset ss r) = nerrs r"
  "attempts (renameSites env fset ss r) = attempts r"
  by (induction ss rule: rev_induct; simp add: renameSites_snoc renameSites_Nil renameIdent_frame)+

lemma renameIdent_planned:
  "renameIdent env fset (fst s) (snd s) r =
     (if planned (objsToUpdate r) s
      then r\<lparr>nidents := nidents r + 1,
             names := (names r)(addr (fst s) := ToLower env (obj_Name (the (snd s)))),
             filesToUpdate := List.insert (Fset_File fset (NamePos (fst s))) (filesToUpdate r)\<rparr>
      else r)"
  by (simp add: renameIdent_def planned_def split: option.splits)

text \<open>The counter grows by the number of planned sites.\<close>

lemma nidents_renameSites:
  "nidents (renameSites env fset ss r) = nidents r + length (filter (planned (objsToUpdate r)) ss)"
  by (induction ss rule: rev_induct)
     (simp_all add: renameSites_snoc renameSites_Nil renameIdent_planned renameSites_frame)

text \<open>An identifier that is no planned site keeps its name.\<close>

lemma names_renameSites_other:
  "\<not> list_ex (\<lambda>s. planned (objsToUpdate r) s \<and> addr (fst s) = a) ss \<Longrightarrow>
   names (renameSites env fset ss r) a = names r a"
proof (induction ss rule: rev_induct)
  case Nil
  then show ?case by (simp add: renameSites_Nil)
next
  case (snoc x xs)
  from snoc.prems have xs: "\<not> list_ex (\<lambda>s. planned (objsToUpdate r) s \<and> addr (fst s) = a) xs"
    and x: "\<not> (planned (objsToUpdate r) x \<and> addr (fst x) = a)"
    by simp_all
  have IH: "names (renameSites env fset xs r) a = names r a"
    using snoc.IH xs by blast
  show ?case
  proof (cases "planned (objsToUpdate r) x")
    case True
    with x have "addr (fst x) \<noteq> a" by blast
    with True IH show ?thesis
      by (simp add: renameSites_snoc renameIdent_planned renameSites_frame)
  next
    case False
    with IH show ?thesis
      by (simp add: renameSites_snoc renameIdent_planned renameSites_frame)
  qed
qed

text \<open>A planned site ends with the lower-cased name of its object, when the planned sites
  at its identifier agree on the name.\<close>

lemma names_renameSites_planned:
  "list_all (\<lambda>t. agree (objsToUpdate r) t s) ss \<Longrightarrow> s \<in> set ss \<Longrightarrow> planned (objsToUpdate r) s \<Longrightarrow>
   names (renameSites env fset ss r) (addr (fst s)) = ToLower env (obj_Name (the (snd s)))"
proof (induction ss rule: rev_induct)
  case Nil
  then show ?case by simp
next
  case (snoc x xs)
  from snoc.prems(1) have ag_xs: "list_all (\<lambda>t. agree (objsToUpdate r) t s) xs"
    and ag_x: "agree (objsToUpdate r) x s" by simp_all
  show ?case
  proof (cases "planned (objsToUpdate r) x \<and> addr (fst x) = addr (fst s)")
    case True
    with ag_x snoc.prems(3) have "obj_Name (the (snd x)) = obj_Name (the (snd s))"
      by (simp add: agree_def)
    with True show ?thesis
      by (simp add: renameSites_snoc renameIdent_planned renameSites_frame)
  next
    case False
    with snoc.prems(2,3) have "s \<in> set xs" by auto
    then have IH: "names (renameSites env fset xs r) (addr (fst s)) = ToLower env (obj_Name (the (snd s)))"
      using snoc.IH ag_xs snoc.prems(3) by blast
    show ?thesis
    proof (cases "planned (objsToUpdate r) x")
      case True
      with False have "addr (fst x) \<noteq> addr (fst s)" by blast
      with True IH show ?thesis
        by (simp add: renameSites_snoc renameIdent_planned renameSites_frame)
    next
      case False
      with IH show ?thesis
        by (simp add: renameSites_snoc renameIdent_planned renameSites_frame)
    qed
  qed
qed

text \<open>The marked files are the files of the planned sites.\<close>

lemma files_renameSites:
  "set (filesToUpdate (renameSites env fset ss r)) =
   set (filesToUpdate r) \<union>
   (\<lambda>s. Fset_File fset (NamePos (fst s))) ` {s \<in> set ss. planned (objsToUpdate r) s}"
proof (induction ss rule: rev_induct)
  case Nil
  show ?case by (simp add: renameSites_Nil)
next
  case (snoc x xs)
  show ?case
  proof (cases "planned (objsToUpdate r) x")
    case True
    then have "{s \<in> set (xs @ [x]). planned (objsToUpdate r) s} =
               insert x {s \<in> set xs. planned (objsToUpdate r) s}" by auto
    with True snoc.IH show ?thesis
      by (simp add: renameSites_snoc renameIdent_planned renameSites_frame)
  next
    case False
    then have "{s \<in> set (xs @ [x]). planned (objsToUpdate r) s} =
               {s \<in> set xs. planned (objsToUpdate r) s}" by auto
    with False snoc.IH show ?thesis
      by (simp add: renameSites_snoc renameIdent_planned renameSites_frame)
  qed
qed

section \<open>The writing loops\<close>

lemma writeFiles_unmarked:
  "Fset_File fset (Package f) \<notin> set (filesToUpdate r) \<Longrightarrow>
   writeFiles env fset (f # fs) first r = writeFiles env fset fs first r"
  by simp

lemma writeFiles_nil_file:
  "Fset_File fset (Package f) \<in> set (filesToUpdate r) \<Longrightarrow> Fset_File fset (Package f) = None \<Longrightarrow>
   writeFiles env fset (f # fs) first r =
     (if first then r\<lparr>npkgs := npkgs r + 1\<rparr> else r)
       \<lparr>err := Some (Panic ''invalid memory address or nil pointer dereference'')\<rparr>"
  by (simp add: Let_def)

lemma writeFiles_marked:
  "Fset_File fset (Package f) \<in> set (filesToUpdate r) \<Longrightarrow> Fset_File fset (Package f) = Some tf \<Longrightarrow>
   writeFiles env fset (f # fs) first r = writeFiles env fset fs False (written env f tf first r)"
  by (simp add: Let_def written_def split: prod.split option.split)

lemma written_frame:
  "names (written env f tf first r) = names r"
  "globalProg (written env f tf first r) = globalProg r"
  "objsToUpdate (written env f tf first r) = objsToUpdate r"
  "nidents (written env f tf first r) = nidents r"
  "filesToUpdate (written env f tf first r) = filesToUpdate r"
  "err (written env f tf first r) = err r"
  by (simp_all add: written_def Let_def split: option.split)

lemma written_attempts:
  "map fst (attempts (written env f tf first r)) = map fst (attempts r) @ [tf_Name tf]"
  by (simp add: written_def Let_def split: option.split)

lemma list_all_reported_mono:
  "list_all (reported evs) as \<Longrightarrow> list_all (reported (evs @ evs2)) as"
  by (induction as) (auto simp: reported_def split: option.splits)

lemma written_accounted:
  "accounted r \<Longrightarrow> accounted (written env f tf first r)"
  by (auto simp add: accounted_def written_def Let_def failed_def reported_def
        list_all_reported_mono split: option.split)

lemma writeFiles_frame:
  "names (writeFiles env fset fs first r) = names r \<and>
   globalProg (writeFiles env fset fs first r) = globalProg r \<and>
   objsToUpdate (writeFiles env fset fs first r) = objsToUpdate r \<and>
   nidents (writeFiles env fset fs first r) = nidents r \<and>
   filesToUpdate (writeFiles env fset fs first r) = filesToUpdate r"
proof (induction fs arbitrary: first r)
  case Nil
  show ?case by simp
next
  case (Cons f fs)
  show ?case
  proof (cases "Fset_File fset (Package f) \<in> set (filesToUpdate r)")
    case False
    show ?thesis
      unfolding writeFiles_unmarked [OF False] by (rule Cons.IH)
  next
    case True
    show ?thesis
    proof (cases "Fset_File fset (Package f)")
      case None
      show ?thesis
        unfolding writeFiles_nil_file [OF True None] by simp
    next
      case (Some tf)
      show ?thesis
        unfolding writeFiles_marked [OF True Some]
        using Cons.IH [of False "written env f tf first r"]
        by (simp only: written_frame)
    qed
  qed
qed

lemma writeFiles_accounted:
  "accounted r \<Longrightarrow> accounted (writeFiles env fset fs first r)"
proof (induction fs arbitrary: first r)
  case Nil
  then show ?case by simp
next
  case (Cons f fs)
  show ?case
  proof (cases "Fset_File fset (Package f) \<in> set (filesToUpdate r)")
    case False
    show ?thesis
      unfolding writeFiles_unmarked [OF False] using Cons.prems by (rule Cons.IH)
  next
    case True
    show ?thesis
    proof (cases "Fset_File fset (Package f)")
      case None
      show ?thesis
        unfolding writeFiles_nil_file [OF True None]
        using Cons.prems by (simp add: accounted_def)
    next
      case (Some tf)
      show ?thesis
        unfolding writeFiles_marked [OF True Some]
        using written_accounted [OF Cons.prems] by (rule Cons.IH)
    qed
  qed
qed

lemma writeFiles_attempts:
  "(err (writeFiles env fset fs first r) = err r \<and>
    map fst (attempts (writeFiles env fset fs first r)) =
      map fst (attempts r) @ map (wname fset) (touched fset (filesToUpdate r) fs)) \<or>
   (panicked (writeFiles env fset fs first r) \<and>
    (\<exists>k. map fst (attempts (writeFiles env fset fs first r)) =
      map fst (attempts r) @ take k (map (wname fset) (touched fset (filesToUpdate r) fs))))"
proof (induction fs arbitrary: first r)
  case Nil
  show ?case by (simp add: touched_def)
next
  case (Cons f fs)
  show ?case
  proof (cases "Fset_File fset (Package f) \<in> set (filesToUpdate r)")
    case False
    then have t: "touched fset (filesToUpdate r) (f # fs) = touched fset (filesToUpdate r) fs"
      by (simp add: touched_def)
    show ?thesis
      unfolding writeFiles_unmarked [OF False] t by (rule Cons.IH)
  next
    case True
    show ?thesis
    proof (cases "Fset_File fset (Package f)")
      case None
      have "map fst (attempts r) =
            map fst (attempts r) @ take 0 (map (wname fset) (touched fset (filesToUpdate r) (f # fs)))"
        by simp
      then show ?thesis
        unfolding writeFiles_nil_file [OF True None]
        by (auto simp add: panicked_def)
    next
      case (Some tf)
      let ?r = "written env f tf first r"
      let ?L = "map (wname fset) (touched fset (filesToUpdate r) fs)"
      have t: "map (wname fset) (touched fset (filesToUpdate r) (f # fs)) = tf_Name tf # ?L"
        using True Some by (simp add: touched_def wname_def)
      have IH: "(err (writeFiles env fset fs False ?r) = err r \<and>
          map fst (attempts (writeFiles env fset fs False ?r)) = (map fst (attempts r) @ [tf_Name tf]) @ ?L) \<or>
         (panicked (writeFiles env fset fs False ?r) \<and>
          (\<exists>k. map fst (attempts (writeFiles env fset fs False ?r)) =
             (map fst (attempts r) @ [tf_Name tf]) @ take k ?L))"
        using Cons.IH [of False ?r] by (simp only: written_frame written_attempts)
      then show ?thesis
      proof
        assume "err (writeFiles env fset fs False ?r) = err r \<and>
          map fst (attempts (writeFiles env fset fs False ?r)) = (map fst (attempts r) @ [tf_Name tf]) @ ?L"
        then show ?thesis
          unfolding writeFiles_marked [OF True Some] t by simp
      next
        assume "panicked (writeFiles env fset fs False ?r) \<and>
          (\<exists>k. map fst (attempts (writeFiles env fset fs False ?r)) =
             (map fst (attempts r) @ [tf_Name tf]) @ take k ?L)"
        then obtain k where p: "panicked (writeFiles env fset fs False ?r)"
          and k: "map fst (attempts (writeFiles env fset fs False ?r)) =
             (map fst (attempts r) @ [tf_Name tf]) @ take k ?L"
          by blast
        have "map fst (attempts (writeFiles env fset fs False ?r)) =
              map fst (attempts r) @ take (Suc k) (tf_Name tf # ?L)"
          using k by simp
        with p show ?thesis
          unfolding writeFiles_marked [OF True Some] t by blast
      qed
    qed
  qed
qed


lemma writeAll_frame:
  "names (writeAll env fset imported r) = names r \<and>
   globalProg (writeAll env fset imported r) = globalProg r \<and>
   objsToUpdate (writeAll env fset imported r) = objsToUpdate r \<and>
   nidents (writeAll env fset imported r) = nidents r \<and>
   filesToUpdate (writeAll env fset imported r) = filesToUpdate r"
proof (induction imported arbitrary: r)
  case Nil
  show ?case by simp
next
  case (Cons a imported)
  obtain p info where a: "a = (p, info)" by (cases a)
  show ?case
    using Cons.IH [of "writeFiles env fset (Files info) True r"]
          writeFiles_frame [of env fset "Files info" True r]
    by (simp add: a Let_def)
qed

lemma writeAll_accounted:
  "accounted r \<Longrightarrow> accounted (writeAll env fset imported r)"
proof (induction imported arbitrary: r)
  case Nil
  then show ?case by simp
next
  case (Cons a imported)
  obtain p info where a: "a = (p, info)" by (cases a)
  have "accounted (writeFiles env fset (Files info) True r)"
    using Cons.prems by (rule writeFiles_accounted)
  then show ?case
    using Cons.IH [of "writeFiles env fset (Files info) True r"]
    by (simp add: a Let_def)
qed

lemma panicked_err: "panicked r \<Longrightarrow> err r \<noteq> None"
  by (auto simp: panicked_def split: option.splits)

lemma writeAll_attempts:
  "err r = None \<Longrightarrow>
   (err (writeAll env fset imported r) = None \<and>
    map fst (attempts (writeAll env fset imported r)) =
      map fst (attempts r) @ map (wname fset) (touched fset (filesToUpdate r) (allFiles imported))) \<or>
   (panicked (writeAll env fset imported r) \<and>
    (\<exists>k. map fst (attempts (writeAll env fset imported r)) =
      map fst (attempts r) @
      take k (map (wname fset) (touched fset (filesToUpdate r) (allFiles imported)))))"
proof (induction imported arbitrary: r)
  case Nil
  then show ?case by (simp add: allFiles_def touched_def)
next
  case (Cons a imported)
  obtain p info where a: "a = (p, info)" by (cases a)
  let ?r1 = "writeFiles env fset (Files info) True r"
  let ?L1 = "map (wname fset) (touched fset (filesToUpdate r) (Files info))"
  let ?L2 = "map (wname fset) (touched fset (filesToUpdate r) (allFiles imported))"
  have L: "map (wname fset) (touched fset (filesToUpdate r) (allFiles (a # imported))) = ?L1 @ ?L2"
    by (simp add: a allFiles_def touched_def)
  have marks: "filesToUpdate ?r1 = filesToUpdate r"
    using writeFiles_frame [of env fset "Files info" True r] by simp
  from writeFiles_attempts [of env fset "Files info" True r] show ?case
  proof
    assume ok: "err ?r1 = err r \<and> map fst (attempts ?r1) = map fst (attempts r) @ ?L1"
    with Cons.prems have e1: "err ?r1 = None" by simp
    then have w: "writeAll env fset (a # imported) r = writeAll env fset imported ?r1"
      by (simp add: a Let_def)
    from Cons.IH [OF e1] show ?thesis
    proof
      assume "err (writeAll env fset imported ?r1) = None \<and>
        map fst (attempts (writeAll env fset imported ?r1)) =
        map fst (attempts ?r1) @ map (wname fset) (touched fset (filesToUpdate ?r1) (allFiles imported))"
      then show ?thesis
        unfolding w L using ok marks by simp
    next
      assume "panicked (writeAll env fset imported ?r1) \<and>
        (\<exists>k. map fst (attempts (writeAll env fset imported ?r1)) =
          map fst (attempts ?r1) @
          take k (map (wname fset) (touched fset (filesToUpdate ?r1) (allFiles imported))))"
      then obtain k where pn: "panicked (writeAll env fset imported ?r1)"
        and k: "map fst (attempts (writeAll env fset imported ?r1)) =
          map fst (attempts ?r1) @ take k ?L2"
        using marks by auto
      have "map fst (attempts (writeAll env fset imported ?r1)) =
            map fst (attempts r) @ take (length ?L1 + k) (?L1 @ ?L2)"
        using k ok by simp
      with pn show ?thesis
        unfolding w L by blast
    qed
  next
    assume bad: "panicked ?r1 \<and> (\<exists>k. map fst (attempts ?r1) = map fst (attempts r) @ take k ?L1)"
    then obtain k where pn: "panicked ?r1"
      and k: "map fst (attempts ?r1) = map fst (attempts r) @ take k ?L1"
      by blast
    have "err ?r1 \<noteq> None" using pn by (rule panicked_err)
    then have w: "writeAll env fset (a # imported) r = ?r1"
      by (auto simp add: a Let_def)
    have "take k ?L1 = take (min k (length ?L1)) (?L1 @ ?L2)"
      by (simp add: min_def)
    with k have "map fst (attempts ?r1) =
        map fst (attempts r) @ take (min k (length ?L1)) (?L1 @ ?L2)"
      by simp
    with pn show ?thesis
      unfolding w L by blast
  qed
qed

lemma writeAll_err:
  "err r = None \<Longrightarrow> err (writeAll env fset imported r) = None \<or> panicked (writeAll env fset imported r)"
  using writeAll_attempts [of r env fset imported] by blast

lemma finish_halted: "err r \<noteq> None \<Longrightarrow> finish r = r"
  by (simp add: finish_def)

lemma finish_ok:
  "err r = None \<Longrightarrow>
   finish r =
     (if 0 < nerrs r
      then r\<lparr>out := out r @ [Logged (summary (nidents r) (length (filesToUpdate r)) (npkgs r))],
             err := Some (Err (rewrite_failure (nerrs r)))\<rparr>
      else r\<lparr>out := out r @ [Logged (summary (nidents r) (length (filesToUpdate r)) (npkgs r))]\<rparr>)"
  by (simp add: finish_def Let_def)

lemma finish_frame:
  "names (finish r) = names r"
  "globalProg (finish r) = globalProg r"
  "objsToUpdate (finish r) = objsToUpdate r"
  "nidents (finish r) = nidents r"
  "filesToUpdate (finish r) = filesToUpdate r"
  "attempts (finish r) = attempts r"
  "nerrs (finish r) = nerrs r"
  "npkgs (finish r) = npkgs r"
  "disk (finish r) = disk r"
  by (simp_all add: finish_def Let_def)

lemma finish_accounted: "accounted r \<Longrightarrow> accounted (finish r)"
  by (auto simp add: accounted_def finish_def Let_def list_all_reported_mono)

lemma finish_panicked: "panicked (finish r) = panicked r"
  by (simp add: finish_def Let_def panicked_def)

section \<open>The shape of a run\<close>

text \<open>A run stops before the reload, or at the lookup of the target in the reloaded
  program, or goes through the loops with the objects that \<^verbatim>\<open>filterObjects\<close>
  yields.\<close>

lemma runMain_cases:
  "(\<exists>evs e. runMain env conf fs = halted fs evs None (\<lambda>a. []) e) \<or>
   (\<exists>evs g e. findExportedObjects g (importPath conf) = Inl e \<and>
        runMain env conf fs = halted fs evs (Some g) (Names g) e) \<or>
   (\<exists>evs prog objs g objects.
        importPath conf \<noteq> [] \<and>
        loadProgram env [importPath conf] = Inr prog \<and>
        findExportedObjects prog (importPath conf) = Inr objs \<and>
        loadProgram env (possiblePackages env objs) = Inr g \<and>
        findExportedObjects g (importPath conf) = Inr objects \<and>
        runMain env conf fs = pipeline env fs evs g (safeObjects (Imported g) objects))"
  unfolding runMain_def Let_def pipeline_def
  by (cases "verbose conf")
     (auto simp add: halted_def ready_def start_def say_def split: sum.split)

lemma pipeline_frame:
  "globalProg (pipeline env fs evs g plan) = Some g"
  "objsToUpdate (pipeline env fs evs g plan) = plan"
  "nidents (pipeline env fs evs g plan) = length (filter (planned plan) (sites (Imported g)))"
  "names (pipeline env fs evs g plan) =
     names (renameSites env (Fset g) (sites (Imported g)) (ready fs evs g plan))"
  "set (filesToUpdate (pipeline env fs evs g plan)) =
     (\<lambda>s. Fset_File (Fset g) (NamePos (fst s))) ` {s \<in> set (sites (Imported g)). planned plan s}"
  using writeAll_frame [of env "Fset g" "Imported g"
          "renameSites env (Fset g) (sites (Imported g)) (ready fs evs g plan)"]
  by (simp_all add: pipeline_def finish_frame renameAll_sites renameSites_frame
        nidents_renameSites files_renameSites)
     (simp_all add: ready_def)

lemma pipeline_names_other:
  assumes "\<not> list_ex (\<lambda>s. planned plan s \<and> addr (fst s) = a) (sites (Imported g))"
  shows "names (pipeline env fs evs g plan) a = Names g a"
proof -
  have "objsToUpdate (ready fs evs g plan) = plan" "names (ready fs evs g plan) = Names g"
    by (simp_all add: ready_def)
  with assms names_renameSites_other [of "ready fs evs g plan" a "sites (Imported g)" env "Fset g"]
  show ?thesis by (simp add: pipeline_frame)
qed

lemma pipeline_names_planned:
  assumes "list_all (\<lambda>t. agree plan t s) (sites (Imported g))"
    and "s \<in> set (sites (Imported g))" and "planned plan s"
  shows "names (pipeline env fs evs g plan) (addr (fst s)) = ToLower env (obj_Name (the (snd s)))"
proof -
  have "objsToUpdate (ready fs evs g plan) = plan"
    by (simp add: ready_def)
  with assms names_renameSites_planned [of "ready fs evs g plan" s "sites (Imported g)" env "Fset g"]
  show ?thesis by (simp add: pipeline_frame)
qed

lemma pipeline_accounted: "accounted (pipeline env fs evs g plan)"
proof -
  have "accounted (renameAll env (Fset g) (Imported g) (ready fs evs g plan))"
    by (simp add: accounted_def renameAll_sites renameSites_frame) (simp add: ready_def)
  then show ?thesis
    unfolding pipeline_def by (intro finish_accounted writeAll_accounted)
qed

text \<open>Unless it panics, a run calls \<^verbatim>\<open>rewriteFile\<close> for every marked file of the
  imported packages, in their order; a run that panics has done so for some of the first
  of them.\<close>

lemma pipeline_attempts:
  "(\<not> panicked (pipeline env fs evs g plan) \<and>
    err (writeAll env (Fset g) (Imported g)
          (renameAll env (Fset g) (Imported g) (ready fs evs g plan))) = None \<and>
    map fst (attempts (pipeline env fs evs g plan)) =
      map (wname (Fset g))
        (touched (Fset g) (filesToUpdate (pipeline env fs evs g plan)) (allFiles (Imported g)))) \<or>
   (panicked (pipeline env fs evs g plan) \<and>
    (\<exists>k. map fst (attempts (pipeline env fs evs g plan)) =
      take k (map (wname (Fset g))
        (touched (Fset g) (filesToUpdate (pipeline env fs evs g plan)) (allFiles (Imported g))))))"
proof -
  let ?ra = "renameAll env (Fset g) (Imported g) (ready fs evs g plan)"
  let ?rb = "writeAll env (Fset g) (Imported g) ?ra"
  have e: "err ?ra = None" and a: "attempts ?ra = []"
    by (simp_all add: renameAll_sites renameSites_frame) (simp_all add: ready_def)
  have f: "filesToUpdate (pipeline env fs evs g plan) = filesToUpdate ?ra"
    using writeAll_frame [of env "Fset g" "Imported g" ?ra]
    by (simp add: pipeline_def finish_frame)
  have p: "panicked (pipeline env fs evs g plan) = panicked ?rb"
    by (simp add: pipeline_def finish_panicked)
  have t: "attempts (pipeline env fs evs g plan) = attempts ?rb"
    by (simp add: pipeline_def finish_frame)
  from writeAll_attempts [OF e, of env "Fset g" "Imported g"] show ?thesis
  proof
    assume "err ?rb = None \<and> map fst (attempts ?rb) =
      map fst (attempts ?ra) @ map (wname (Fset g)) (touched (Fset g) (filesToUpdate ?ra) (allFiles (Imported g)))"
    then show ?thesis
      unfolding p t f by (simp add: a panicked_def)
  next
    assume "panicked ?rb \<and> (\<exists>k. map fst (attempts ?rb) =
      map fst (attempts ?ra) @ take k (map (wname (Fset g)) (touched (Fset g) (filesToUpdate ?ra) (allFiles (Imported g)))))"
    then show ?thesis
      unfolding p t f by (simp add: a)
  qed
qed

section \<open>The claims\<close>

text \<open>Every run is of one of two kinds.\<close>

lemma run_shape:
  obtains (stop) evs gp nm e where "runMain env conf fs = halted fs evs gp nm e"
      "(gp = None \<and> nm = (\<lambda>a. [])) \<or> (\<exists>g m. gp = Some g \<and> nm = Names g \<and> e = Panic m)"
  | (run) evs g objects where
      "findExportedObjects g (importPath conf) = Inr objects"
      "runMain env conf fs = pipeline env fs evs g (safeObjects (Imported g) objects)"
  using runMain_cases [of env conf fs] findExportedObjects_Inl by blast

subsection \<open>C10: what is entered is exported and defined in the target; what is renamed\<close>

text \<open>
  Every object that a run enters into \<^verbatim>\<open>objsToUpdate\<close> is exported and is defined in the
  target package: it is the object of an entry of \<^verbatim>\<open>Defs\<close> of the package of the
  reloaded program whose path is the import path of the run. And an identifier whose name
  after the run differs from its name in the reloaded program is a definition or use site
  of some object of \<^verbatim>\<open>objsToUpdate\<close>. This does not say that the identifier is bound
  to such objects only.
\<close>

lemma objsToUpdate_exported_in_target:
  "(obj \<in> set (objsToUpdate (runMain env conf fs)) \<longrightarrow>
      Exported obj \<and>
      (\<exists>g info i. globalProg (runMain env conf fs) = Some g \<and>
                  (importPath conf, info) \<in> set (AllPackages g) \<and>
                  (i, Some obj) \<in> set (Defs info))) \<and>
   (globalProg (runMain env conf fs) = Some g' \<and> names (runMain env conf fs) a \<noteq> Names g' a \<longrightarrow>
      (\<exists>i ob. (i, Some ob) \<in> set (sites (Imported g')) \<and> addr i = a \<and>
               ob \<in> set (objsToUpdate (runMain env conf fs))))"
proof (cases rule: run_shape [of env conf fs])
  case (stop evs gp nm e)
  then show ?thesis by (auto simp add: halted_def)
next
  case (run evs g objects)
  let ?plan = "safeObjects (Imported g) objects"
  have first: "Exported obj \<and> (\<exists>info i. (importPath conf, info) \<in> set (AllPackages g) \<and>
                  (i, Some obj) \<in> set (Defs info))" if "obj \<in> set ?plan"
  proof -
    from that have "obj \<in> snd ` set objects"
      by (simp add: set_safeObjects)
    then obtain i where i: "(i, obj) \<in> set objects" by auto
    from findExportedObjects_Inr [OF run(1)] obtain info
      where info: "(importPath conf, info) \<in> set (AllPackages g)"
        and objs: "objects = exportedObjects info" by blast
    from i objs have "(i, Some obj) \<in> set (Defs info) \<and> Exported obj"
      by (simp add: exportedObjects_def exportedDefs_iff)
    with info show ?thesis by blast
  qed
  have second: "\<exists>i ob. (i, Some ob) \<in> set (sites (Imported g)) \<and> addr i = a \<and> ob \<in> set ?plan"
    if "names (pipeline env fs evs g ?plan) a \<noteq> Names g a"
  proof -
    from that pipeline_names_other [of ?plan a g env fs evs]
    have "list_ex (\<lambda>s. planned ?plan s \<and> addr (fst s) = a) (sites (Imported g))"
      by blast
    then obtain s where s: "s \<in> set (sites (Imported g))" "planned ?plan s" "addr (fst s) = a"
      by (auto simp add: list_ex_iff)
    from s(2) obtain ob where "snd s = Some ob" "ob \<in> set ?plan"
      by (auto simp add: planned_def split: option.splits)
    with s(1,3) have "(fst s, Some ob) \<in> set (sites (Imported g)) \<and> addr (fst s) = a \<and> ob \<in> set ?plan"
      by (metis prod.collapse)
    then show ?thesis by blast
  qed
  show ?thesis
    using first second by (auto simp add: run(2) pipeline_frame)
qed

text \<open>
  Claim C10 says that every object in the rename set is exported and defined in the
  target package, which holds, and that no unexported object and no object defined in
  another package is ever renamed. In the workspace of \<^verbatim>\<open>t\<close> and \<^verbatim>\<open>u\<close> the run on
  \<^verbatim>\<open>t\<close> enters the type \<^verbatim>\<open>Foo\<close> of \<^verbatim>\<open>t\<close> and nothing else. The identifier of
  the embedded field in \<^verbatim>\<open>u\<close> is a use site of that type, so the renaming loop over
  \<^verbatim>\<open>Uses\<close> assigns it \<^verbatim>\<open>foo\<close>; the same identifier declares the field \<^verbatim>\<open>Foo\<close>
  of \<^verbatim>\<open>U\<close>, an object of package \<^verbatim>\<open>u\<close> that is not in the rename set, and that
  field is thereby renamed.
\<close>

theorem field_of_other_package_is_renamed:
  "(at 45 639, Some FooField_u) \<in> set (Defs u_info) \<and>
   (at 45 639, Foo_t) \<in> set (Uses u_info) \<and>
   obj_Pkg FooField_u = ''u'' \<and>
   map fst (Imported (the (globalProg (runMain envT (exConf ''t'') ex_disk)))) = [''t'', ''u''] \<and>
   err (runMain envT (exConf ''t'') ex_disk) = None \<and>
   objsToUpdate (runMain envT (exConf ''t'') ex_disk) = [Foo_t] \<and>
   FooField_u \<notin> set (objsToUpdate (runMain envT (exConf ''t'') ex_disk)) \<and>
   Names (the (globalProg (runMain envT (exConf ''t'') ex_disk))) 45 = ''Foo'' \<and>
   names (runMain envT (exConf ''t'') ex_disk) 45 = ''foo'' \<and>
   map_of (disk (runMain envT (exConf ''t'') ex_disk)) ''u/u.go'' =
     Some ''package u; import t; type U struct{ t.foo }''"
  by code_simp

subsection \<open>C9: a file is written at most once\<close>

text \<open>
  Claim C9. In every run each file is written at most once: the file names passed to
  \<^verbatim>\<open>rewriteFile\<close> are pairwise different. The writing loop visits every file of every
  imported package once; the names are those of the loader's files, so the statement is
  for a reloaded program whose files of the imported packages have pairwise different
  names, as a loader that parses each file of each package once yields.
\<close>

theorem each_file_written_once:
  assumes "\<And>g. globalProg (runMain env conf fs) = Some g \<Longrightarrow>
             distinct (map (wname (Fset g)) (allFiles (Imported g)))"
  shows "distinct (map fst (attempts (runMain env conf fs)))"
proof (cases rule: run_shape [of env conf fs])
  case (stop evs gp nm e)
  then show ?thesis by (simp add: halted_def)
next
  case (run evs g objects)
  let ?r = "pipeline env fs evs g (safeObjects (Imported g) objects)"
  let ?L = "map (wname (Fset g)) (touched (Fset g) (filesToUpdate ?r) (allFiles (Imported g)))"
  have "distinct (map (wname (Fset g)) (allFiles (Imported g)))"
    using assms by (simp add: run(2) pipeline_frame)
  then have d: "distinct ?L"
    unfolding touched_def by (rule distinct_map_filter)
  from pipeline_attempts [of env fs evs g "safeObjects (Imported g) objects"]
  obtain k where "map fst (attempts ?r) = ?L \<or> map fst (attempts ?r) = take k ?L"
    by blast
  with d show ?thesis
    unfolding run(2) by (auto simp add: distinct_take simp del: distinct_map)
qed

theorem each_file_written_once_witness:
  "(case globalProg (runMain envW (exConf ''p'') ex_disk) of
      None \<Rightarrow> False
    | Some g \<Rightarrow> distinct (map (wname (Fset g)) (allFiles (Imported g)))) \<and>
   map fst (attempts (runMain envW (exConf ''p'') ex_disk)) = [''p/p.go'', ''b/b.go''] \<and>
   distinct (map fst (attempts (runMain envW (exConf ''p'') ex_disk)))"
proof -
  let ?r = "runMain envW (exConf ''p'') ex_disk"
  have c: "case globalProg ?r of None \<Rightarrow> False
        | Some g \<Rightarrow> distinct (map (wname (Fset g)) (allFiles (Imported g)))"
    by code_simp
  then have h: "\<And>g. globalProg ?r = Some g \<Longrightarrow> distinct (map (wname (Fset g)) (allFiles (Imported g)))"
    by (simp split: option.splits)
  have a: "map fst (attempts ?r) = [''p/p.go'', ''b/b.go'']" by code_simp
  from each_file_written_once [of envW "exConf ''p''" ex_disk, OF h] c a
  show ?thesis by blast
qed

subsection \<open>C8: the new name is the lower-cased old name\<close>

text \<open>
  Claim C8. For every object of \<^verbatim>\<open>objsToUpdate\<close> and every definition or use site of it
  in an imported package, the identifier's name after the run is \<^verbatim>\<open>strings.ToLower\<close> of
  the object's name: the new name is a function of the old name alone, the same at every
  site, and no identifier already present is consulted. When the type checker records one
  identifier at several sites, the last assignment wins; all of them assign the same text
  when the objects of these sites have the same name, which is the hypothesis
  \<open>agree\<close> (the type checker binds an identifier to objects of the identifier's own
  name).
\<close>

theorem planned_sites_lowercased:
  assumes "globalProg (runMain env conf fs) = Some g"
    and "(i, Some obj) \<in> set (sites (Imported g))"
    and "obj \<in> set (objsToUpdate (runMain env conf fs))"
    and "list_all (\<lambda>t. agree (objsToUpdate (runMain env conf fs)) t (i, Some obj)) (sites (Imported g))"
  shows "names (runMain env conf fs) (addr i) = ToLower env (obj_Name obj)"
proof (cases rule: run_shape [of env conf fs])
  case (stop evs gp nm e)
  with assms(3) show ?thesis by (simp add: halted_def)
next
  case (run evs g' objects)
  let ?plan = "safeObjects (Imported g') objects"
  from assms(1) have g: "g' = g" by (simp add: run(2) pipeline_frame)
  have p: "planned ?plan (i, Some obj)"
    using assms(3) by (simp add: run(2) pipeline_frame planned_def)
  have s: "(i, Some obj) \<in> set (sites (Imported g'))"
    using assms(2) by (simp add: g)
  have a: "list_all (\<lambda>t. agree ?plan t (i, Some obj)) (sites (Imported g'))"
    using assms(4) by (simp add: run(2) pipeline_frame g)
  have "names (pipeline env fs evs g' ?plan) (addr (fst (i, Some obj))) =
        ToLower env (obj_Name (the (snd (i, Some obj))))"
    using a s p by (rule pipeline_names_planned)
  then show ?thesis by (simp add: run(2))
qed

theorem planned_sites_lowercased_witness:
  "globalProg (runMain envW (exConf ''p'') ex_disk) \<noteq> None \<and>
   (at 6 137, Some Foo_p) \<in> set (sites (Imported (the (globalProg (runMain envW (exConf ''p'') ex_disk))))) \<and>
   Foo_p \<in> set (objsToUpdate (runMain envW (exConf ''p'') ex_disk)) \<and>
   list_all (\<lambda>t. agree (objsToUpdate (runMain envW (exConf ''p'') ex_disk)) t (at 6 137, Some Foo_p))
     (sites (Imported (the (globalProg (runMain envW (exConf ''p'') ex_disk))))) \<and>
   names (runMain envW (exConf ''p'') ex_disk) (addr (at 6 137)) = ToLower envW (obj_Name Foo_p) \<and>
   ToLower envW (obj_Name Foo_p) = ''foo''"
proof -
  let ?r = "runMain envW (exConf ''p'') ex_disk"
  have "\<not> Option.is_none (globalProg ?r)" by code_simp
  then have n: "globalProg ?r \<noteq> None"
    by (simp add: Option.is_none_def)
  then have a: "globalProg ?r = Some (the (globalProg ?r))"
    by simp
  have b: "(at 6 137, Some Foo_p) \<in> set (sites (Imported (the (globalProg ?r))))"
    by code_simp
  have c: "Foo_p \<in> set (objsToUpdate ?r)" by code_simp
  have d: "list_all (\<lambda>t. agree (objsToUpdate ?r) t (at 6 137, Some Foo_p))
             (sites (Imported (the (globalProg ?r))))"
    by code_simp
  have e: "ToLower envW (obj_Name Foo_p) = ''foo''" by code_simp
  from planned_sites_lowercased [OF a b c d] n b c d e
  show ?thesis by blast
qed

subsection \<open>C6: write failures are logged, counted and reported together\<close>

text \<open>Some call failed iff the number of failed calls is positive.\<close>

lemma failed_count: "(0 < length (filter failed as)) = list_ex failed as"
  by (induction as) auto

lemma main_configOf:
  "main env fl fs =
     (exitCode (err (runMain env (configOf fl) fs)),
      case err (runMain env (configOf fl) fs) of
        Some (Err e) \<Rightarrow>
          (runMain env (configOf fl) fs)
            \<lparr>out := out (runMain env (configOf fl) fs) @ [Stderr (''unexport: '' @ e)]\<rparr>
      | _ \<Rightarrow> runMain env (configOf fl) fs)"
  by (simp add: main_def Let_def)

text \<open>
  Claim C6. Take a run that reaches the writing loop and does not panic. Then
  \<^verbatim>\<open>rewriteFile\<close> has been called for every marked file of the imported packages, in
  their order, whatever the earlier calls returned; \<^verbatim>\<open>nerrs\<close> is the number of calls
  that failed, and the error of each is in the log; the run returns the error
  \<^verbatim>\<open>failed to rewrite n files\<close> exactly when a call failed, and returns nil otherwise;
  and the last line it logs is the summary line, also when calls failed. When the run is
  the one \<^verbatim>\<open>main\<close> starts from the flags, \<^verbatim>\<open>main\<close> exits with 1 exactly when a call
  failed and with 0 otherwise, and what it prints is the output of the run, followed by
  the returned error when a call failed.
\<close>

theorem write_failures_counted_and_aggregated:
  assumes "globalProg (runMain env conf fs) = Some g"
    and "\<not> panicked (runMain env conf fs)"
  shows "map fst (attempts (runMain env conf fs)) =
           map (wname (Fset g))
             (touched (Fset g) (filesToUpdate (runMain env conf fs)) (allFiles (Imported g))) \<and>
         nerrs (runMain env conf fs) = length (filter failed (attempts (runMain env conf fs))) \<and>
         list_all (reported (out (runMain env conf fs))) (attempts (runMain env conf fs)) \<and>
         err (runMain env conf fs) =
           (if list_ex failed (attempts (runMain env conf fs))
            then Some (Err (rewrite_failure (nerrs (runMain env conf fs)))) else None) \<and>
         exitCode (err (runMain env conf fs)) =
           (if list_ex failed (attempts (runMain env conf fs)) then 1 else 0) \<and>
         last (out (runMain env conf fs)) =
           Logged (summary (nidents (runMain env conf fs))
                     (length (filesToUpdate (runMain env conf fs)))
                     (npkgs (runMain env conf fs))) \<and>
         (conf = configOf fl \<longrightarrow>
            fst (main env fl fs) =
              (if list_ex failed (attempts (runMain env conf fs)) then 1 else 0) \<and>
            out (snd (main env fl fs)) =
              out (runMain env conf fs) @
              (if list_ex failed (attempts (runMain env conf fs))
               then [Stderr (''unexport: '' @ rewrite_failure (nerrs (runMain env conf fs)))]
               else []) \<and>
            attempts (snd (main env fl fs)) = attempts (runMain env conf fs) \<and>
            disk (snd (main env fl fs)) = disk (runMain env conf fs))"
proof (cases rule: run_shape [of env conf fs])
  case (stop evs gp nm e)
  with assms show ?thesis by (auto simp add: halted_def panicked_def)
next
  case (run evs g' objects)
  let ?plan = "safeObjects (Imported g') objects"
  let ?r = "pipeline env fs evs g' ?plan"
  let ?w = "writeAll env (Fset g') (Imported g') (renameAll env (Fset g') (Imported g') (ready fs evs g' ?plan))"
  from assms(1) have g: "g' = g" by (simp add: run(2) pipeline_frame)
  from assms(2) have np: "\<not> panicked ?r" by (simp add: run(2))
  with pipeline_attempts [of env fs evs g' ?plan]
  have w: "err ?w = None"
    and at: "map fst (attempts ?r) =
      map (wname (Fset g')) (touched (Fset g') (filesToUpdate ?r) (allFiles (Imported g')))"
    by blast+
  have acc: "accounted ?r" by (rule pipeline_accounted)
  then have n: "nerrs ?r = length (filter failed (attempts ?r))"
    and l: "list_all (reported (out ?r)) (attempts ?r)"
    by (simp_all add: accounted_def)
  have fin: "?r = finish ?w" by (simp add: pipeline_def)
  have e: "err ?r = (if 0 < nerrs ?r then Some (Err (rewrite_failure (nerrs ?r))) else None)"
    unfolding fin using finish_ok [OF w] w by (simp add: finish_frame)
  have o: "last (out ?r) = Logged (summary (nidents ?r) (length (filesToUpdate ?r)) (npkgs ?r))"
    unfolding fin using finish_ok [OF w] by (simp add: finish_frame)
  have c: "(0 < nerrs ?r) = list_ex failed (attempts ?r)"
    unfolding n by (rule failed_count)
  have e': "err ?r = (if list_ex failed (attempts ?r)
                      then Some (Err (rewrite_failure (nerrs ?r))) else None)"
    using e c by simp
  have m: "fst (main env fl fs) = (if list_ex failed (attempts ?r) then 1 else 0) \<and>
           out (snd (main env fl fs)) =
             out ?r @ (if list_ex failed (attempts ?r)
                       then [Stderr (''unexport: '' @ rewrite_failure (nerrs ?r))] else []) \<and>
           attempts (snd (main env fl fs)) = attempts ?r \<and>
           disk (snd (main env fl fs)) = disk ?r"
    if "conf = configOf fl"
  proof -
    from that run(2) have r: "runMain env (configOf fl) fs = ?r" by simp
    show ?thesis
      unfolding main_configOf r
      by (cases "list_ex failed (attempts ?r)") (simp_all add: e' exitCode_def)
  qed
  have x: "exitCode (err ?r) = (if list_ex failed (attempts ?r) then 1 else 0)"
    by (simp add: e' exitCode_def)
  show ?thesis
    unfolding run(2) using at n l e' o x m by (simp add: g)
qed

theorem write_failures_counted_and_aggregated_witness:
  "globalProg (runMain envW (exConf ''p'') ex_disk) \<noteq> None \<and>
   \<not> panicked (runMain envW (exConf ''p'') ex_disk) \<and>
   exConf ''p'' = configOf (exFlags ''p'') \<and>
   attempts (runMain envW (exConf ''p'') ex_disk) =
     [(''p/p.go'', Some ''open p/p.go: permission denied''), (''b/b.go'', None)] \<and>
   map (wname (Fset (the (globalProg (runMain envW (exConf ''p'') ex_disk)))))
     (touched (Fset (the (globalProg (runMain envW (exConf ''p'') ex_disk))))
        (filesToUpdate (runMain envW (exConf ''p'') ex_disk))
        (allFiles (Imported (the (globalProg (runMain envW (exConf ''p'') ex_disk)))))) =
     [''p/p.go'', ''b/b.go''] \<and>
   nerrs (runMain envW (exConf ''p'') ex_disk) = 1 \<and>
   err (runMain envW (exConf ''p'') ex_disk) = Some (Err ''failed to rewrite 1 file'') \<and>
   exitCode (err (runMain envW (exConf ''p'') ex_disk)) = 1 \<and>
   out (runMain envW (exConf ''p'') ex_disk) =
     [Logged ''open p/p.go: permission denied'',
      Logged ''Unexported 3 occurrences in 2 files in 2 packages.''] \<and>
   last (out (runMain envW (exConf ''p'') ex_disk)) =
     Logged (summary (nidents (runMain envW (exConf ''p'') ex_disk))
               (length (filesToUpdate (runMain envW (exConf ''p'') ex_disk)))
               (npkgs (runMain envW (exConf ''p'') ex_disk))) \<and>
   list_ex failed (attempts (runMain envW (exConf ''p'') ex_disk)) \<and>
   fst (main envW (exFlags ''p'') ex_disk) = 1 \<and>
   out (snd (main envW (exFlags ''p'') ex_disk)) =
     [Logged ''open p/p.go: permission denied'',
      Logged ''Unexported 3 occurrences in 2 files in 2 packages.'',
      Stderr ''unexport: failed to rewrite 1 file'']"
proof -
  let ?r = "runMain envW (exConf ''p'') ex_disk"
  have "\<not> Option.is_none (globalProg ?r)" by code_simp
  then have n: "globalProg ?r \<noteq> None"
    by (simp add: Option.is_none_def)
  then have a: "globalProg ?r = Some (the (globalProg ?r))"
    by simp
  have b: "\<not> panicked ?r" by code_simp
  have k: "exConf ''p'' = configOf (exFlags ''p'')"
    by (simp add: exConf_def configOf_def exFlags_def)
  have c: "attempts ?r = [(''p/p.go'', Some ''open p/p.go: permission denied''), (''b/b.go'', None)]"
    by code_simp
  have d: "map (wname (Fset (the (globalProg ?r))))
     (touched (Fset (the (globalProg ?r))) (filesToUpdate ?r)
        (allFiles (Imported (the (globalProg ?r))))) = [''p/p.go'', ''b/b.go'']"
    by code_simp
  have e: "nerrs ?r = 1" by code_simp
  have f: "err ?r = Some (Err ''failed to rewrite 1 file'')" by code_simp
  have h: "out ?r = [Logged ''open p/p.go: permission denied'',
      Logged ''Unexported 3 occurrences in 2 files in 2 packages.'']" by code_simp
  have i: "exitCode (err ?r) = 1" by code_simp
  have j: "list_ex failed (attempts ?r)" by code_simp
  have q: "out ?r @ [Stderr (''unexport: '' @ rewrite_failure (nerrs ?r))] =
     [Logged ''open p/p.go: permission denied'',
      Logged ''Unexported 3 occurrences in 2 files in 2 packages.'',
      Stderr ''unexport: failed to rewrite 1 file'']"
    by code_simp
  from write_failures_counted_and_aggregated [OF a b, of "exFlags ''p''"] k j
  have m: "fst (main envW (exFlags ''p'') ex_disk) = 1"
    and m2: "out (snd (main envW (exFlags ''p'') ex_disk)) =
             out ?r @ [Stderr (''unexport: '' @ rewrite_failure (nerrs ?r))]"
    by simp_all
  from m2 q have m3: "out (snd (main envW (exFlags ''p'') ex_disk)) =
     [Logged ''open p/p.go: permission denied'',
      Logged ''Unexported 3 occurrences in 2 files in 2 packages.'',
      Stderr ''unexport: failed to rewrite 1 file'']"
    by (rule trans)
  from write_failures_counted_and_aggregated [OF a b, of "exFlags ''p''"] n b k c d e f h i j m m3
  show ?thesis by blast
qed

subsection \<open>C1 and C2: which objects are entered into \<^verbatim>\<open>objsToUpdate\<close>\<close>

text \<open>
  By \<open>set_safeObjects\<close>, an exported object of the target is entered as soon as one
  imported package has no use of it, the target included, and is left out only when every
  imported package uses it.
\<close>

text \<open>
  Claim C1 says that an exported object of the target with a use site in another loaded
  package is not in the plan and is not renamed. In the workspace of \<^verbatim>\<open>p\<close> and
  \<^verbatim>\<open>b\<close>, \<^verbatim>\<open>Foo\<close> of \<^verbatim>\<open>p\<close> is used in \<^verbatim>\<open>b\<close>, and both packages are
  reloaded. The run on \<^verbatim>\<open>p\<close> enters \<^verbatim>\<open>Foo\<close>, because \<^verbatim>\<open>p\<close> itself has no use of
  it, and renames its definition in \<^verbatim>\<open>p\<close> and its use in \<^verbatim>\<open>b\<close>.
\<close>

theorem external_use_is_renamed:
  "(at 6 137, Foo_p) \<in> set (Uses b_info) \<and>
   (at 1 17, Some Foo_p) \<in> set (Defs p_info) \<and>
   map fst (Imported (the (globalProg (runMain envB (exConf ''p'') ex_disk)))) = [''p'', ''b''] \<and>
   err (runMain envB (exConf ''p'') ex_disk) = None \<and>
   Foo_p \<in> set (objsToUpdate (runMain envB (exConf ''p'') ex_disk)) \<and>
   names (runMain envB (exConf ''p'') ex_disk) 1 = ''foo'' \<and>
   names (runMain envB (exConf ''p'') ex_disk) 6 = ''foo'' \<and>
   map_of (disk (runMain envB (exConf ''p'') ex_disk)) ''b/b.go'' =
     Some ''package b; import p; func g() { p.foo() }''"
  by code_simp

text \<open>
  Claim C2 says that an exported object of the target without a use site in any other
  package is in the plan, uses inside the target allowed. Package \<^verbatim>\<open>q\<close> is imported
  by no package and calls its own \<^verbatim>\<open>Foo\<close>. The run on \<^verbatim>\<open>q\<close> reloads \<^verbatim>\<open>q\<close>
  alone, finds the use in \<^verbatim>\<open>q\<close>, and enters nothing.
\<close>

theorem internal_use_blocks_rename:
  "(at 11 217, Some Foo_q) \<in> set (Defs q_info) \<and> Exported Foo_q \<and>
   map fst (Imported (the (globalProg (runMain envQ (exConf ''q'') ex_disk)))) = [''q''] \<and>
   err (runMain envQ (exConf ''q'') ex_disk) = None \<and>
   objsToUpdate (runMain envQ (exConf ''q'') ex_disk) = [] \<and>
   names (runMain envQ (exConf ''q'') ex_disk) 11 = ''Foo'' \<and>
   attempts (runMain envQ (exConf ''q'') ex_disk) = [] \<and>
   disk (runMain envQ (exConf ''q'') ex_disk) = ex_disk"
  by code_simp

subsection \<open>C3: the dry-run mode\<close>

text \<open>\<^verbatim>\<open>runMain\<close> never reads \<^verbatim>\<open>conf.dryRun\<close>: a run with the flag is the run without
  it, reported counts and written files alike.\<close>

lemma dryRun_ignored: "runMain env (conf\<lparr>dryRun := b\<rparr>) fs = runMain env conf fs"
  unfolding runMain_def Let_def by (simp split: sum.split)

text \<open>
  Claim C3 says that a dry run reports the counts of the run without the flag and writes
  no byte. The counts are the same, but so are the writes: the dry run on \<^verbatim>\<open>p\<close> calls
  \<^verbatim>\<open>rewriteFile\<close> for \<^verbatim>\<open>p/p.go\<close> and the file's content changes.
\<close>

theorem dry_run_writes_files:
  "dryRun (exConf ''p''\<lparr>dryRun := True\<rparr>) \<and>
   map_of ex_disk ''p/p.go'' = Some ''package p; func Foo() {}; func Bar() {}'' \<and>
   attempts (runMain envP (exConf ''p''\<lparr>dryRun := True\<rparr>) ex_disk) = [(''p/p.go'', None)] \<and>
   map_of (disk (runMain envP (exConf ''p''\<lparr>dryRun := True\<rparr>) ex_disk)) ''p/p.go'' =
     Some ''package p; func foo() {}; func bar() {}'' \<and>
   out (runMain envP (exConf ''p''\<lparr>dryRun := True\<rparr>) ex_disk) =
     out (runMain envP (exConf ''p'') ex_disk) \<and>
   fst (main envP (exFlags ''p''\<lparr>flagDryRun := True\<rparr>) ex_disk) = 0 \<and>
   map_of (disk (snd (main envP (exFlags ''p''\<lparr>flagDryRun := True\<rparr>) ex_disk))) ''p/p.go'' =
     Some ''package p; func foo() {}; func bar() {}''"
  by code_simp

subsection \<open>C4: the identifier list\<close>

text \<open>\<^verbatim>\<open>runMain\<close> never reads \<^verbatim>\<open>conf.identifiers\<close>.\<close>

lemma identifiers_ignored: "runMain env (conf\<lparr>identifiers := ids\<rparr>) fs = runMain env conf fs"
  unfolding runMain_def Let_def by (simp split: sum.split)

text \<open>
  Claim C4 says that with a non-empty identifier list only objects named in the list are
  in the plan and renamed. The run on \<^verbatim>\<open>p\<close> with the list \<^verbatim>\<open>Bar\<close> enters
  \<^verbatim>\<open>Foo\<close> and renames it.
\<close>

theorem allowlist_is_ignored:
  "Split ''Bar'' = [''Bar''] \<and> obj_Name Foo_p = ''Foo'' \<and>
   Foo_p \<in> set (objsToUpdate (runMain envP (exConf ''p''\<lparr>identifiers := Split ''Bar''\<rparr>) ex_disk)) \<and>
   names (runMain envP (exConf ''p''\<lparr>identifiers := Split ''Bar''\<rparr>) ex_disk) 1 = ''foo'' \<and>
   Foo_p \<in> set (objsToUpdate (snd (main envP (exFlags ''p''\<lparr>flagIdentifier := ''Bar''\<rparr>) ex_disk))) \<and>
   map_of (disk (snd (main envP (exFlags ''p''\<lparr>flagIdentifier := ''Bar''\<rparr>) ex_disk))) ''p/p.go'' =
     Some ''package p; func foo() {}; func bar() {}''"
  by code_simp

subsection \<open>C5: a target without exported identifiers\<close>

text \<open>
  When the target has no exported object, no package is entered into
  \<^verbatim>\<open>possiblePackages\<close>, not even the target, and the reload is asked for nothing. The
  run then returns the loader's error, or panics when the program it gets has no package
  of the target's path; it returns nil only if loading nothing yields a program that holds
  the target.
\<close>

lemma possiblePackages_Nil: "possiblePackages env [] = []"
  by (simp add: possiblePackages_def)

lemma no_exports_reloads_nothing:
  assumes "importPath conf \<noteq> []"
    and "loadProgram env [importPath conf] = Inr prog"
    and "findExportedObjects prog (importPath conf) = Inr []"
  shows "(loadProgram env [] = Inl e \<longrightarrow> err (runMain env conf fs) = Some (Err e)) \<and>
         (loadProgram env [] = Inr g \<and>
          find (\<lambda>(pkg, info). pkg = importPath conf) (AllPackages g) = None \<longrightarrow>
            panicked (runMain env conf fs)) \<and>
         (err (runMain env conf fs) = None \<longrightarrow>
            (\<exists>g. loadProgram env [] = Inr g \<and>
                 find (\<lambda>(pkg, info). pkg = importPath conf) (AllPackages g) \<noteq> None))"
  using assms
  by (auto simp add: runMain_def Let_def possiblePackages_Nil say_def panicked_def
        findExportedObjects_def split: sum.splits option.splits)

text \<open>
  Claim C5 says that for a target without exported identifiers the plan is empty, no file
  is written and the process exits with 0. Package \<^verbatim>\<open>n\<close> declares only \<^verbatim>\<open>x\<close>. In
  the run on \<^verbatim>\<open>n\<close> the plan is empty and no file is written, but the reload of no
  package fails and the process exits with 1.
\<close>

theorem no_exports_run_fails:
  "exportedObjects n_info = [] \<and>
   err (runMain envN (exConf ''n'') ex_disk) = Some (Err ''no initial packages were loaded'') \<and>
   objsToUpdate (runMain envN (exConf ''n'') ex_disk) = [] \<and>
   attempts (runMain envN (exConf ''n'') ex_disk) = [] \<and>
   disk (runMain envN (exConf ''n'') ex_disk) = ex_disk \<and>
   fst (main envN (exFlags ''n'') ex_disk) = 1"
  by code_simp

subsection \<open>C7: the count, and what else changes\<close>

text \<open>The reported number of occurrences is the number of definition and use sites of
  the imported packages whose object is in \<^verbatim>\<open>objsToUpdate\<close>.\<close>

lemma nidents_counts_planned_sites:
  assumes "globalProg (runMain env conf fs) = Some g"
  shows "nidents (runMain env conf fs) =
         length (filter (planned (objsToUpdate (runMain env conf fs))) (sites (Imported g)))"
proof (cases rule: run_shape [of env conf fs])
  case (stop evs gp nm e)
  then show ?thesis by (simp add: halted_def planned_def split: option.split)
next
  case (run evs g' objects)
  with assms show ?thesis by (simp add: pipeline_frame)
qed

text \<open>
  Claim C7 says that the count is the number of such sites, which holds, and that no
  identifier occurrence bound to an object outside the plan has its text changed. In
  package \<^verbatim>\<open>e\<close> the identifier of the embedded field is a definition site of the field
  \<^verbatim>\<open>Foo\<close> and a use site of the type \<^verbatim>\<open>Foo\<close>. The type is used in \<^verbatim>\<open>e\<close> and stays
  out of the plan; the field is in the plan. The run renames the identifier, a use of the
  type, to \<^verbatim>\<open>foo\<close>, while the declaration of the type keeps the name \<^verbatim>\<open>Foo\<close>.
\<close>

theorem embedded_field_use_is_renamed:
  "(at 33 446, Some FooField_e) \<in> set (Defs e_info) \<and>
   (at 33 446, FooType_e) \<in> set (Uses e_info) \<and>
   err (runMain envE (exConf ''e'') ex_disk) = None \<and>
   FooField_e \<in> set (objsToUpdate (runMain envE (exConf ''e'') ex_disk)) \<and>
   FooType_e \<notin> set (objsToUpdate (runMain envE (exConf ''e'') ex_disk)) \<and>
   Names (the (globalProg (runMain envE (exConf ''e'') ex_disk))) 33 = ''Foo'' \<and>
   names (runMain envE (exConf ''e'') ex_disk) 33 = ''foo'' \<and>
   names (runMain envE (exConf ''e'') ex_disk) 31 = ''Foo'' \<and>
   nidents (runMain envE (exConf ''e'') ex_disk) = 2 \<and>
   map_of (disk (runMain envE (exConf ''e'') ex_disk)) ''e/e.go'' =
     Some ''package e; type Foo struct{}; type t struct{ foo }''"
  by code_simp

end
